theory Spec2Isabelle
  imports Complex_Main "HOL-Library.AList"
begin

section \<open>JavaScript values and the JSON built-ins\<close>

text \<open>
  The extension talks to its server in JSON text: \<^verbatim>\<open>JSON.stringify(data)\<close> in
  \<^verbatim>\<open>sendWebSocketMessage\<close> and in the \<^verbatim>\<open>onopen\<close> handler, \<^verbatim>\<open>JSON.parse(event.data)\<close>
  in the \<^verbatim>\<open>onmessage\<close> handler (src/src/ws.ts). Both are built-ins of the JavaScript
  runtime; they are modelled here after ECMA-262 (SerializeJSONProperty, QuoteJSONString,
  the JSON grammar), on these terms:
  \<^item> a number is an \<open>int\<close> (the timestamps and counters of the protocol); numbers with a
    fraction or an exponent are outside the model, and the parser reports them as such;
  \<^item> a string is a \<open>string\<close>: code units 0 to 255;
  \<^item> an object is the list of its own properties in enumeration order, which is the
    order of insertion (keys that are array indices, which JavaScript enumerates first,
    are not set apart).

  \<open>json\<close> is what \<^verbatim>\<open>JSON.parse\<close> can return. \<open>jsval\<close> is what the program hands to
  \<^verbatim>\<open>JSON.stringify\<close>: besides the JSON values, \<^verbatim>\<open>undefined\<close> and \<^verbatim>\<open>Date\<close> objects
  (\<^verbatim>\<open>lastOnline: new Date()\<close> in src/src/background.ts). A \<^verbatim>\<open>Date\<close> is represented by
  the text its \<^verbatim>\<open>toISOString()\<close> returns.
\<close>

datatype json =
    JNull
  | JBool bool
  | JNum int
  | JStr string
  | JArr "json list"
  | JObj "(string \<times> json) list"

datatype jsval =
    VUndefined
  | VNull
  | VBool bool
  | VNum int
  | VStr string
  | VDate string
  | VArr "jsval list"
  | VObj "(string \<times> jsval) list"

text \<open>A JSON value as a JavaScript value (the identity on the values both types share).\<close>

fun from_json :: "json \<Rightarrow> jsval" where
  "from_json JNull = VNull"
| "from_json (JBool b) = VBool b"
| "from_json (JNum n) = VNum n"
| "from_json (JStr s) = VStr s"
| "from_json (JArr xs) = VArr (map from_json xs)"
| "from_json (JObj kvs) = VObj (map (\<lambda>(k, v). (k, from_json v)) kvs)"

subsection \<open>Characters\<close>

definition dquote :: char where "dquote = CHR 0x22"
definition squote :: char where "squote = CHR 0x27"
definition backslash :: char where "backslash = CHR 0x5C"

definition hex_digit :: "nat \<Rightarrow> char" where
  "hex_digit d = (if d < 10 then char_of (48 + d) else char_of (87 + d))"

definition is_digit :: "char \<Rightarrow> bool" where
  "is_digit c \<longleftrightarrow> 48 \<le> (of_char c :: nat) \<and> (of_char c :: nat) \<le> 57"

definition digit_val :: "char \<Rightarrow> nat" where
  "digit_val c = (of_char c :: nat) - 48"

text \<open>The value of a hexadecimal digit, upper or lower case; \<open>None\<close> for another character.\<close>

definition hex_val :: "char \<Rightarrow> nat option" where
  "hex_val c =
     (let n = (of_char c :: nat) in
      if 48 \<le> n \<and> n \<le> 57 then Some (n - 48)
      else if 97 \<le> n \<and> n \<le> 102 then Some (n - 87)
      else if 65 \<le> n \<and> n \<le> 70 then Some (n - 55)
      else None)"

subsection \<open>Number to text\<close>

text \<open>
  \<^verbatim>\<open>Number.prototype.toString\<close> at an integer of magnitude below \<open>10^21\<close>: the decimal
  digits, with a minus sign for a negative number.
\<close>

fun dec :: "nat \<Rightarrow> string" where
  "dec n = (if n < 10 then [char_of (48 + n)] else dec (n div 10) @ [char_of (48 + n mod 10)])"

declare dec.simps [simp del]

definition Number_toString :: "int \<Rightarrow> string" where
  "Number_toString n = (if n < 0 then CHR ''-'' # dec (nat (- n)) else dec (nat n))"

subsection \<open>Numbers\<close>

text \<open>
  A JavaScript number is an IEEE 754 double, and every arithmetic operation rounds its
  exact result to the nearest double, ties to the even significand. \<open>exponent x\<close> is the
  binary exponent of the binade of \<open>x \<ge> 0\<close> (\<open>-1022\<close> for the subnormal numbers and 0),
  \<open>ulp x\<close> the distance between neighbouring doubles there, with 53 significant bits, and
  \<open>fl x\<close> the double that \<open>x\<close> rounds to. Overflow is not modelled: \<open>fl\<close> is the rounding
  for magnitudes below \<open>2^1024\<close>. A real number \<open>x\<close> is a double when it rounds to itself.
\<close>

fun binade :: "nat \<Rightarrow> int \<Rightarrow> real \<Rightarrow> int" where
  "binade 0 e x = e"
| "binade (Suc n) e x = (if 2 powi e \<le> x then e else binade n (e - 1) x)"

definition exponent :: "real \<Rightarrow> int" where
  "exponent x = binade 2045 1023 x"

definition ulp :: "real \<Rightarrow> real" where
  "ulp x = 2 powi (exponent x - 52)"

text \<open>Rounding to the nearest integer, a tie to the even one.\<close>

definition rne :: "real \<Rightarrow> int" where
  "rne y = (let q = \<lfloor>y\<rfloor> in
            if y - of_int q < 1/2 then q
            else if 1/2 < y - of_int q then q + 1
            else if even q then q else q + 1)"

definition fl :: "real \<Rightarrow> real" where
  "fl x = (if x < 0 then - (of_int (rne (- x / ulp (- x))) * ulp (- x))
           else of_int (rne (x / ulp x)) * ulp x)"

definition is_double :: "real \<Rightarrow> bool" where
  "is_double x \<longleftrightarrow> fl x = x"

subsection \<open>JSON.stringify\<close>

text \<open>
  QuoteJSONString: the double quote and the backslash are escaped with a backslash, the
  control characters below 0x20 by their short form (\<^verbatim>\<open>\b \t \n \f \r\<close>) or as
  \<^verbatim>\<open>\u00XX\<close> in lower-case hexadecimal; every other code unit stands for itself.
\<close>

definition quote_char :: "char \<Rightarrow> string" where
  "quote_char c =
     (let n = (of_char c :: nat) in
      if c = dquote then [backslash, dquote]
      else if c = backslash then [backslash, backslash]
      else if n = 8 then [backslash, CHR ''b'']
      else if n = 9 then [backslash, CHR ''t'']
      else if n = 10 then [backslash, CHR ''n'']
      else if n = 12 then [backslash, CHR ''f'']
      else if n = 13 then [backslash, CHR ''r'']
      else if n < 32 then [backslash, CHR ''u'', CHR ''0'', CHR ''0'', hex_digit (n div 16), hex_digit (n mod 16)]
      else [c])"

definition QuoteJSONString :: "string \<Rightarrow> string" where
  "QuoteJSONString s = dquote # concat (map quote_char s) @ [dquote]"

fun join_comma :: "string list \<Rightarrow> string" where
  "join_comma [] = []"
| "join_comma [x] = x"
| "join_comma (x # y # ys) = x @ CHR '','' # join_comma (y # ys)"

text \<open>
  SerializeJSONProperty, with no replacer and no indentation. \<open>None\<close> is the result
  \<^verbatim>\<open>undefined\<close>. A \<^verbatim>\<open>Date\<close> has a \<^verbatim>\<open>toJSON\<close> method, which returns its ISO text, and the
  text is then serialized as a string. In an array, an element that serializes to
  \<^verbatim>\<open>undefined\<close> is written \<^verbatim>\<open>null\<close>; in an object, such a property is left out.
\<close>

fun SerializeJSONProperty :: "jsval \<Rightarrow> string option"
  and SerializeJSONArray :: "jsval list \<Rightarrow> string list"
  and SerializeJSONObject :: "(string \<times> jsval) list \<Rightarrow> string list" where
  "SerializeJSONProperty VUndefined = None"
| "SerializeJSONProperty VNull = Some ''null''"
| "SerializeJSONProperty (VBool b) = Some (if b then ''true'' else ''false'')"
| "SerializeJSONProperty (VNum n) = Some (Number_toString n)"
| "SerializeJSONProperty (VStr s) = Some (QuoteJSONString s)"
| "SerializeJSONProperty (VDate t) = Some (QuoteJSONString t)"
| "SerializeJSONProperty (VArr xs) = Some (''['' @ join_comma (SerializeJSONArray xs) @ '']'')"
| "SerializeJSONProperty (VObj kvs) = Some (''{'' @ join_comma (SerializeJSONObject kvs) @ ''}'')"
| "SerializeJSONArray [] = []"
| "SerializeJSONArray (x # xs) =
     (case SerializeJSONProperty x of None \<Rightarrow> ''null'' | Some s \<Rightarrow> s) # SerializeJSONArray xs"
| "SerializeJSONObject [] = []"
| "SerializeJSONObject ((k, v) # kvs) =
     (case SerializeJSONProperty v of
        None \<Rightarrow> SerializeJSONObject kvs
      | Some s \<Rightarrow> (QuoteJSONString k @ CHR '':'' # s) # SerializeJSONObject kvs)"

definition JSON_stringify :: "jsval \<Rightarrow> string option" where
  "JSON_stringify v = SerializeJSONProperty v"

subsection \<open>JSON.parse\<close>

text \<open>
  The JSON grammar, read by recursive descent. A parser returns the value and the text
  left after it. \<open>NotModelled\<close> marks the two places where the text is valid JSON that
  the types above cannot hold: a number with a fraction or an exponent, and a
  \<^verbatim>\<open>\uXXXX\<close> escape above \<^verbatim>\<open>00FF\<close>. Everything else that \<^verbatim>\<open>JSON.parse\<close> rejects is a
  \<open>SyntaxError\<close>.
\<close>

datatype parse_error = SyntaxError | NotModelled

definition is_ws :: "char \<Rightarrow> bool" where
  "is_ws c \<longleftrightarrow> (of_char c :: nat) \<in> {9, 10, 13, 32}"

definition skip_ws :: "string \<Rightarrow> string" where
  "skip_ws s = dropWhile is_ws s"

definition unescape :: "char \<Rightarrow> char option" where
  "unescape e =
     (if e = dquote then Some dquote
      else if e = backslash then Some backslash
      else if e = CHR ''/'' then Some CHR ''/''
      else if e = CHR ''b'' then Some (char_of (8 :: nat))
      else if e = CHR ''f'' then Some (char_of (12 :: nat))
      else if e = CHR ''n'' then Some (char_of (10 :: nat))
      else if e = CHR ''r'' then Some (char_of (13 :: nat))
      else if e = CHR ''t'' then Some (char_of (9 :: nat))
      else None)"

definition hex4 :: "char \<Rightarrow> char \<Rightarrow> char \<Rightarrow> char \<Rightarrow> nat option" where
  "hex4 a b c d =
     (case (hex_val a, hex_val b, hex_val c, hex_val d) of
        (Some x, Some y, Some z, Some w) \<Rightarrow> Some (((x * 16 + y) * 16 + z) * 16 + w)
      | _ \<Rightarrow> None)"

definition cons_char :: "char \<Rightarrow> parse_error + (string \<times> string) \<Rightarrow> parse_error + (string \<times> string)" where
  "cons_char c r = (case r of Inl e \<Rightarrow> Inl e | Inr (s, rest) \<Rightarrow> Inr (c # s, rest))"

fun parse_chars :: "string \<Rightarrow> parse_error + (string \<times> string)" where
  "parse_chars [] = Inl SyntaxError"
| "parse_chars (c # r) =
     (if c = dquote then Inr ([], r)
      else if c = backslash then
        (case r of
           [] \<Rightarrow> Inl SyntaxError
         | e # r' \<Rightarrow>
             if e = CHR ''u'' then
               (case r' of
                  h1 # h2 # h3 # h4 # r'' \<Rightarrow>
                    (case hex4 h1 h2 h3 h4 of
                       None \<Rightarrow> Inl SyntaxError
                     | Some n \<Rightarrow> if n < 256 then cons_char (char_of n) (parse_chars r'') else Inl NotModelled)
                | _ \<Rightarrow> Inl SyntaxError)
             else
               (case unescape e of
                  None \<Rightarrow> Inl SyntaxError
                | Some ch \<Rightarrow> cons_char ch (parse_chars r')))
      else if (of_char c :: nat) < 32 then Inl SyntaxError
      else cons_char c (parse_chars r))"

definition digits_val :: "string \<Rightarrow> nat" where
  "digits_val ds = foldl (\<lambda>a c. 10 * a + digit_val c) 0 ds"

definition parse_number :: "string \<Rightarrow> parse_error + (int \<times> string)" where
  "parse_number s =
     (let neg = (s \<noteq> [] \<and> hd s = CHR ''-'');
          s1 = (if neg then tl s else s)
      in case s1 of
           [] \<Rightarrow> Inl SyntaxError
         | d # r \<Rightarrow>
             if \<not> is_digit d then Inl SyntaxError
             else
               let ds = (if d = CHR ''0'' then [d] else takeWhile is_digit s1);
                   rest = drop (length ds) s1
               in if rest \<noteq> [] \<and> hd rest \<in> {CHR ''.'', CHR ''e'', CHR ''E''} then Inl NotModelled
                  else Inr ((if neg then - int (digits_val ds) else int (digits_val ds)), rest))"

definition starts_with :: "string \<Rightarrow> string \<Rightarrow> bool" where
  "starts_with p s \<longleftrightarrow> take (length p) s = p"

lemma length_skip_ws: "length (skip_ws s) \<le> length s"
  by (simp add: skip_ws_def length_dropWhile_le)

lemma skip_ws_Cons_length: "skip_ws s = c # r \<Longrightarrow> length r < length s"
  using length_skip_ws [of s] by simp

text \<open>
  The guards \<open>length r < length s\<close> below only state that a parser consumed input; they
  let the recursion be accepted and never fail (a value is at least one character long).
\<close>

function parse_value :: "string \<Rightarrow> parse_error + (json \<times> string)"
  and parse_elems :: "string \<Rightarrow> parse_error + (json list \<times> string)"
  and parse_members :: "string \<Rightarrow> parse_error + ((string \<times> json) list \<times> string)" where
  "parse_value s =
     (case skip_ws s of
        [] \<Rightarrow> Inl SyntaxError
      | c # r \<Rightarrow>
          if c = CHR ''{'' then
            (case skip_ws r of
               [] \<Rightarrow> Inl SyntaxError
             | c' # r' \<Rightarrow>
                 if c' = CHR ''}'' then Inr (JObj [], r')
                 else (case parse_members r of
                         Inl e \<Rightarrow> Inl e
                       | Inr (kvs, r'') \<Rightarrow> Inr (JObj (foldl (\<lambda>obj (k, v). AList.update k v obj) [] kvs), r'')))
          else if c = CHR ''['' then
            (case skip_ws r of
               [] \<Rightarrow> Inl SyntaxError
             | c' # r' \<Rightarrow>
                 if c' = CHR '']'' then Inr (JArr [], r')
                 else (case parse_elems r of
                         Inl e \<Rightarrow> Inl e
                       | Inr (xs, r'') \<Rightarrow> Inr (JArr xs, r'')))
          else if c = dquote then
            (case parse_chars r of Inl e \<Rightarrow> Inl e | Inr (str, r') \<Rightarrow> Inr (JStr str, r'))
          else if starts_with ''true'' (c # r) then Inr (JBool True, drop 4 (c # r))
          else if starts_with ''false'' (c # r) then Inr (JBool False, drop 5 (c # r))
          else if starts_with ''null'' (c # r) then Inr (JNull, drop 4 (c # r))
          else (case parse_number (c # r) of Inl e \<Rightarrow> Inl e | Inr (n, r') \<Rightarrow> Inr (JNum n, r')))"
| "parse_elems s =
     (case parse_value s of
        Inl e \<Rightarrow> Inl e
      | Inr (v, r) \<Rightarrow>
          if length r < length s then
            (case skip_ws r of
               [] \<Rightarrow> Inl SyntaxError
             | c # r' \<Rightarrow>
                 if c = CHR '','' then
                   (case parse_elems r' of Inl e \<Rightarrow> Inl e | Inr (vs, r'') \<Rightarrow> Inr (v # vs, r''))
                 else if c = CHR '']'' then Inr ([v], r')
                 else Inl SyntaxError)
          else Inl SyntaxError)"
| "parse_members s =
     (case skip_ws s of
        [] \<Rightarrow> Inl SyntaxError
      | q # r0 \<Rightarrow>
          if q \<noteq> dquote then Inl SyntaxError
          else
            (case parse_chars r0 of
               Inl e \<Rightarrow> Inl e
             | Inr (k, r1) \<Rightarrow>
                 (case skip_ws r1 of
                    [] \<Rightarrow> Inl SyntaxError
                  | c # r2 \<Rightarrow>
                      if c \<noteq> CHR '':'' \<or> \<not> length r2 < length s then Inl SyntaxError
                      else
                        (case parse_value r2 of
                           Inl e \<Rightarrow> Inl e
                         | Inr (v, r3) \<Rightarrow>
                             if length r3 < length r2 then
                               (case skip_ws r3 of
                                  [] \<Rightarrow> Inl SyntaxError
                                | c' # r4 \<Rightarrow>
                                    if c' = CHR '','' then
                                      (case parse_members r4 of
                                         Inl e \<Rightarrow> Inl e
                                       | Inr (kvs, r5) \<Rightarrow> Inr ((k, v) # kvs, r5))
                                    else if c' = CHR ''}'' then Inr ([(k, v)], r4)
                                    else Inl SyntaxError)
                             else Inl SyntaxError))))"
  by pat_completeness auto

termination
  apply (relation "measure (\<lambda>x. case x of Inl s \<Rightarrow> 2 * length s | Inr (Inl s) \<Rightarrow> 2 * length s + 1 | Inr (Inr s) \<Rightarrow> 2 * length s + 1)")
  apply (auto dest!: skip_ws_Cons_length)
  done

definition JSON_parse :: "string \<Rightarrow> parse_error + json" where
  "JSON_parse s =
     (case parse_value s of
        Inl e \<Rightarrow> Inl e
      | Inr (v, r) \<Rightarrow> if skip_ws r = [] then Inr v else Inl SyntaxError)"

section \<open>Packet types (types.ts)\<close>

text \<open>
  A TypeScript string enum compiles to an object whose properties are the declared
  members. Reading a property the object does not have gives \<^verbatim>\<open>undefined\<close>.
\<close>

definition CommandType :: "(string \<times> string) list" where
  "CommandType =
     [(''GOTO'', ''goto''), (''RELOAD'', ''reload''), (''BACK'', ''back''), (''FORWARD'', ''forward''),
      (''CLICK'', ''click''), (''TYPE'', ''type''), (''SELECT'', ''select''), (''HOVER'', ''hover''),
      (''FOCUS'', ''focus''),
      (''SCREENSHOT'', ''screenshot''), (''PDF'', ''pdf''), (''GET_TEXT'', ''getText''),
      (''GET_HTML'', ''getHtml''), (''GET_ATTRIBUTE'', ''getAttribute''), (''EVALUATE'', ''evaluate''),
      (''WAIT_FOR_SELECTOR'', ''waitForSelector''), (''WAIT_FOR_NAVIGATION'', ''waitForNavigation''),
      (''WAIT_FOR_TIMEOUT'', ''waitForTimeout''),
      (''EXIT'', ''exit'')]"

definition PacketType :: "(string \<times> string) list" where
  "PacketType =
     [(''COMMAND'', ''COMMAND''), (''COMMAND_RESULT'', ''COMMAND_RESULT''), (''INIT'', ''INIT''),
      (''EXIT'', ''EXIT''), (''PING'', ''PING''), (''PONG'', ''PONG''), (''ERROR'', ''ERROR'')]"

definition enum_member :: "(string \<times> string) list \<Rightarrow> string \<Rightarrow> jsval" where
  "enum_member e name = (case map_of e name of Some v \<Rightarrow> VStr v | None \<Rightarrow> VUndefined)"

text \<open>The kind tags the packet-type definition declares.\<close>

definition declared_kinds :: "string list" where
  "declared_kinds = map snd PacketType"

text \<open>
  The payloads of the three packets with a declared shape. A field of type \<^verbatim>\<open>any\<close> is a
  \<open>jsval\<close>; an optional field (\<^verbatim>\<open>result?\<close>, \<^verbatim>\<open>error?\<close>) is an \<open>option\<close>, \<open>None\<close> when the
  object has no such property; \<^verbatim>\<open>lastOnline: Date\<close> is the ISO text of the date.
\<close>

record CommandData =
  cmd_accessCode :: string
  cmd_commandId :: string
  cmd_command :: string
  cmd_params :: "(string \<times> jsval) list"
  cmd_timestamp :: int







definition decode :: "string \<Rightarrow> parse_error + json" where
  "decode text = JSON_parse text"


section \<open>Transport (ws.ts)\<close>

text \<open>
  The module state of ws.ts is the three variables \<^verbatim>\<open>socket\<close>, \<^verbatim>\<open>reconnectTimeout\<close> and
  \<^verbatim>\<open>pingInterval\<close>. Around it stands what the runtime keeps: every \<^verbatim>\<open>WebSocket\<close> object
  created so far (a socket is named by its position in \<open>sockets\<close>) with its ready state
  and the handlers attached to it, the timers that are armed, and, for the record, the
  frames sent. Timer handles start at 1, as in a browser, so a handle is always truthy
  and \<^verbatim>\<open>if (reconnectTimeout)\<close> tests that the variable is not \<^verbatim>\<open>null\<close>.
\<close>

datatype readyState = CONNECTING | OPEN | CLOSING | CLOSED

datatype promise = Pending | Fulfilled | Broken

text \<open>
  The handlers of a socket are closures: those that \<^verbatim>\<open>initializeWebSocket(accessCode)\<close>
  attaches capture \<^verbatim>\<open>accessCode\<close>; those that \<^verbatim>\<open>sendWebSocketMessage(data)\<close> attaches to its
  temporary socket capture \<^verbatim>\<open>data\<close> and the promise it returned.
\<close>

datatype handlers = Persistent string | Temporary jsval promise

record websocket =
  ws_handlers :: handlers
  ws_readyState :: readyState

text \<open>The callbacks given to \<^verbatim>\<open>setTimeout\<close> and \<^verbatim>\<open>setInterval\<close>.\<close>

datatype timer =
    Reconnect string
  | Ping
  | SendTimeout nat

record ws_state =
  socket :: "nat option"
  reconnectTimeout :: "nat option"
  pingInterval :: "nat option"
  sockets :: "websocket list"
  timers :: "(nat \<times> nat \<times> timer) list"
  next_handle :: nat
  sent :: "(nat \<times> string) list"

definition RECONNECT_DELAY_MS :: nat where "RECONNECT_DELAY_MS = 5000"
definition PING_INTERVAL_MS :: nat where "PING_INTERVAL_MS = 30000"

definition initial_state :: ws_state where
  "initial_state =
     \<lparr>socket = None, reconnectTimeout = None, pingInterval = None, sockets = [], timers = [],
      next_handle = 1, sent = []\<rparr>"

definition setTimer :: "nat \<Rightarrow> timer \<Rightarrow> ws_state \<Rightarrow> nat \<times> ws_state" where
  "setTimer delay cb st =
     (next_handle st,
      st\<lparr>timers := timers st @ [(next_handle st, delay, cb)], next_handle := Suc (next_handle st)\<rparr>)"

definition clearTimer :: "nat \<Rightarrow> ws_state \<Rightarrow> ws_state" where
  "clearTimer h st = st\<lparr>timers := filter (\<lambda>(h', d, cb). h' \<noteq> h) (timers st)\<rparr>"

definition new_WebSocket :: "handlers \<Rightarrow> ws_state \<Rightarrow> nat \<times> ws_state" where
  "new_WebSocket h st =
     (length (sockets st),
      st\<lparr>sockets := sockets st @ [\<lparr>ws_handlers = h, ws_readyState = CONNECTING\<rparr>]\<rparr>)"

definition readyState_of :: "ws_state \<Rightarrow> nat \<Rightarrow> readyState option" where
  "readyState_of st k = (if k < length (sockets st) then Some (ws_readyState (sockets st ! k)) else None)"

definition set_readyState :: "nat \<Rightarrow> readyState \<Rightarrow> ws_state \<Rightarrow> ws_state" where
  "set_readyState k r st =
     (if k < length (sockets st)
      then st\<lparr>sockets := (sockets st)[k := (sockets st ! k)\<lparr>ws_readyState := r\<rparr>]\<rparr>
      else st)"

text \<open>\<^verbatim>\<open>socket && socket.readyState === WebSocket.OPEN\<close>\<close>

definition socket_is_open :: "ws_state \<Rightarrow> bool" where
  "socket_is_open st = (case socket st of None \<Rightarrow> False | Some k \<Rightarrow> readyState_of st k = Some OPEN)"

text \<open>
  \<^verbatim>\<open>WebSocket.send\<close>: an open socket transmits the frame; a connecting socket throws
  \<^verbatim>\<open>InvalidStateError\<close> (\<open>None\<close>); a closing or closed socket drops the frame silently.
  \<^verbatim>\<open>WebSocket.close\<close>: a connecting or open socket starts closing; otherwise nothing.
\<close>

definition ws_send :: "nat \<Rightarrow> string \<Rightarrow> ws_state \<Rightarrow> ws_state option" where
  "ws_send k text st =
     (case readyState_of st k of
        Some OPEN \<Rightarrow> Some (st\<lparr>sent := sent st @ [(k, text)]\<rparr>)
      | Some CONNECTING \<Rightarrow> None
      | _ \<Rightarrow> Some st)"

definition ws_close :: "nat \<Rightarrow> ws_state \<Rightarrow> ws_state" where
  "ws_close k st =
     (case readyState_of st k of
        Some CONNECTING \<Rightarrow> set_readyState k CLOSING st
      | Some OPEN \<Rightarrow> set_readyState k CLOSING st
      | _ \<Rightarrow> st)"

text \<open>Settling the promise of a temporary socket: only a pending promise changes.\<close>

definition settle :: "nat \<Rightarrow> promise \<Rightarrow> ws_state \<Rightarrow> ws_state" where
  "settle k p st =
     (if k < length (sockets st) then
        (case ws_handlers (sockets st ! k) of
           Temporary d Pending \<Rightarrow>
             st\<lparr>sockets := (sockets st)[k := (sockets st ! k)\<lparr>ws_handlers := Temporary d p\<rparr>]\<rparr>
         | _ \<Rightarrow> st)
      else st)"

text \<open>
  The text \<^verbatim>\<open>socket.send(JSON.stringify(data))\<close> transmits: \<^verbatim>\<open>send\<close> converts its argument
  to a string, so the result \<^verbatim>\<open>undefined\<close> goes out as the nine letters.
\<close>

definition message_text :: "jsval \<Rightarrow> string" where
  "message_text data = (case JSON_stringify data of Some t \<Rightarrow> t | None \<Rightarrow> ''undefined'')"

datatype send_result = Sent | Deferred nat

text \<open>
  \<^verbatim>\<open>sendWebSocketMessage(data)\<close>, up to the point where the promise executor returns:
  either the frame went out on the open socket and the promise is resolved (\<open>Sent\<close>), or
  a temporary socket was created, with a 5 second timer, and the promise is pending on
  it (\<open>Deferred\<close>).
\<close>

definition sendWebSocketMessage :: "jsval \<Rightarrow> ws_state \<Rightarrow> ws_state \<times> send_result" where
  "sendWebSocketMessage data st =
     (case (if socket_is_open st then socket st else None) of
        Some k \<Rightarrow> (st\<lparr>sent := sent st @ [(k, message_text data)]\<rparr>, Sent)
      | None \<Rightarrow>
          (let (k, st1) = new_WebSocket (Temporary data Pending) st;
               (h, st2) = setTimer 5000 (SendTimeout k) st1
           in (st2, Deferred k)))"

definition clear_reconnect :: "ws_state \<Rightarrow> ws_state" where
  "clear_reconnect st =
     (case reconnectTimeout st of
        Some h \<Rightarrow> (clearTimer h st)\<lparr>reconnectTimeout := None\<rparr>
      | None \<Rightarrow> st)"

definition clear_ping :: "ws_state \<Rightarrow> ws_state" where
  "clear_ping st =
     (case pingInterval st of
        Some h \<Rightarrow> (clearTimer h st)\<lparr>pingInterval := None\<rparr>
      | None \<Rightarrow> st)"

definition initializeWebSocket :: "string \<Rightarrow> ws_state \<Rightarrow> ws_state" where
  "initializeWebSocket accessCode st =
     (if socket_is_open st then st
      else
        let st1 = clear_reconnect st;
            st2 = clear_ping st1;
            (k, st3) = new_WebSocket (Persistent accessCode) st2
        in st3\<lparr>socket := Some k\<rparr>)"

definition closeWebSocket :: "ws_state \<Rightarrow> ws_state" where
  "closeWebSocket st =
     (let st1 = (case socket st of Some k \<Rightarrow> (ws_close k st)\<lparr>socket := None\<rparr> | None \<Rightarrow> st);
          st2 = clear_reconnect st1
      in clear_ping st2)"

text \<open>
  \<^verbatim>\<open>socket.onopen\<close> of \<^verbatim>\<open>initializeWebSocket\<close>. The handler reads the module variable
  \<^verbatim>\<open>socket\<close>, not the socket that opened. \<^verbatim>\<open>PacketType.REGISTER\<close> is a property read on
  the enum object.
\<close>

definition registerMessage :: "string \<Rightarrow> jsval" where
  "registerMessage accessCode =
     VObj [(''type'', enum_member PacketType ''REGISTER''),
           (''data'', VObj [(''accessCode'', VStr accessCode)])]"

definition onopen :: "string \<Rightarrow> ws_state \<Rightarrow> ws_state" where
  "onopen accessCode st =
     (case socket st of
        None \<Rightarrow> st
      | Some m \<Rightarrow>
          (case ws_send m (message_text (registerMessage accessCode)) st of
             None \<Rightarrow> st
           | Some st1 \<Rightarrow>
               (let (h, st2) = setTimer PING_INTERVAL_MS Ping st1
                in st2\<lparr>pingInterval := Some h\<rparr>)))"

text \<open>The interval callback: \<^verbatim>\<open>socket.send('ping')\<close> when the socket is open.\<close>

definition ping :: "ws_state \<Rightarrow> ws_state" where
  "ping st =
     (case (if socket_is_open st then socket st else None) of
        Some k \<Rightarrow> st\<lparr>sent := sent st @ [(k, ''ping'')]\<rparr>
      | None \<Rightarrow> st)"

text \<open>\<^verbatim>\<open>socket.onclose\<close> of \<^verbatim>\<open>initializeWebSocket\<close>.\<close>

definition onclose :: "string \<Rightarrow> ws_state \<Rightarrow> ws_state" where
  "onclose accessCode st =
     (let st1 = clear_ping st;
          (h, st2) = setTimer RECONNECT_DELAY_MS (Reconnect accessCode) st1
      in st2\<lparr>reconnectTimeout := Some h\<rparr>)"

text \<open>
  What the runtime does to the module: calls of the exported functions, socket events
  and timers that fire. An event that cannot happen in the state (a socket that is not
  connecting opens, a timer that is not armed fires) has no successor. A timeout is
  disarmed when it fires; the keepalive interval stays armed. \<open>Socket_error k\<close> is the
  failure of a connection: the runtime sets the ready state to \<^verbatim>\<open>CLOSED\<close> and fires
  \<^verbatim>\<open>error\<close> and then \<^verbatim>\<open>close\<close> at the socket, in one task (the \<^verbatim>\<open>onerror\<close> handler of the
  persistent socket only logs; the temporary socket has no \<^verbatim>\<open>onclose\<close> handler).
  \<open>Socket_close k\<close> is a connection that closes without an error.
\<close>

datatype event =
    Call_initializeWebSocket string
  | Call_closeWebSocket
  | Call_sendWebSocketMessage jsval
  | Socket_open nat
  | Socket_error nat
  | Socket_close nat
  | Timer_fire nat

definition fire :: "timer \<Rightarrow> nat \<Rightarrow> ws_state \<Rightarrow> ws_state" where
  "fire cb h st =
     (case cb of
        Reconnect accessCode \<Rightarrow> initializeWebSocket accessCode (clearTimer h st)
      | Ping \<Rightarrow> ping st
      | SendTimeout k \<Rightarrow>
          (let st1 = clearTimer h st
           in if readyState_of st1 k \<noteq> Some CLOSED then settle k Broken (ws_close k st1) else st1))"

fun step :: "ws_state \<Rightarrow> event \<Rightarrow> ws_state option" where
  "step st (Call_initializeWebSocket accessCode) = Some (initializeWebSocket accessCode st)"
| "step st Call_closeWebSocket = Some (closeWebSocket st)"
| "step st (Call_sendWebSocketMessage data) = Some (fst (sendWebSocketMessage data st))"
| "step st (Socket_open k) =
     (if readyState_of st k = Some CONNECTING then
        (let st1 = set_readyState k OPEN st in
         case ws_handlers (sockets st ! k) of
           Persistent accessCode \<Rightarrow> Some (onopen accessCode st1)
         | Temporary data p \<Rightarrow>
             Some (settle k Fulfilled
                    (ws_close k (st1\<lparr>sent := sent st1 @ [(k, message_text data)]\<rparr>))))
      else None)"
| "step st (Socket_error k) =
     (if k < length (sockets st) \<and> readyState_of st k \<noteq> Some CLOSED then
        (let st1 = set_readyState k CLOSED st in
         case ws_handlers (sockets st ! k) of
           Persistent accessCode \<Rightarrow> Some (onclose accessCode st1)
         | Temporary data p \<Rightarrow> Some (settle k Broken st1))
      else None)"
| "step st (Socket_close k) =
     (if k < length (sockets st) \<and> readyState_of st k \<noteq> Some CLOSED then
        (let st1 = set_readyState k CLOSED st in
         case ws_handlers (sockets st ! k) of
           Persistent accessCode \<Rightarrow> Some (onclose accessCode st1)
         | Temporary data p \<Rightarrow> Some st1)
      else None)"
| "step st (Timer_fire h) =
     (case map_of (timers st) h of
        None \<Rightarrow> None
      | Some (delay, cb) \<Rightarrow> Some (fire cb h st))"

fun run :: "ws_state \<Rightarrow> event list \<Rightarrow> ws_state option" where
  "run st [] = Some st"
| "run st (e # es) = (case step st e of None \<Rightarrow> None | Some st' \<Rightarrow> run st' es)"

section \<open>Command handler (commandHandler.ts)\<close>

subsection \<open>Outcomes, time, and the browser\<close>

text \<open>
  An \<^verbatim>\<open>async\<close> method settles: it resolves with a value or rejects with what was thrown.
  A \<^verbatim>\<open>catch\<close> clause receives either an \<^verbatim>\<open>Error\<close> (with its message) or some other value.
  Time is in milliseconds; a method is started at a time and settles at a time. Calls of
  the browser API take no time of their own: time passes only in timers and waits.
\<close>

datatype thrown = JsError string | Thrown jsval

datatype outcome = Resolved jsval | Rejected thrown

type_synonym settled = "outcome \<times> nat"

text \<open>
  What a script injected into the page does, seen from outside: it returns a value
  (\<open>None\<close> is \<^verbatim>\<open>undefined\<close>), throws, is not a program at all (a \<^verbatim>\<open>SyntaxError\<close> when it
  is compiled), or returns a promise that settles at some time, rejected with a message
  or fulfilled with a value.
\<close>

datatype in_page =
    Returns "json option"
  | Throws string
  | Malformed
  | Promises nat "string + json option"

text \<open>
  The statements \<^verbatim>\<open>const fn = <functionStr>; return fn.apply(null, <args>);\<close> of an evaluate
  command, run in the page:
  \<^item> \<open>Gives v\<close>: the function text is an expression, its value is called and returns \<open>v\<close>
    (\<open>None\<close> for \<^verbatim>\<open>undefined\<close>);
  \<^item> \<open>Raises m\<close>: the function text is an expression, and evaluating or calling it throws;
    \<open>m\<close> is the \<^verbatim>\<open>message\<close> of what is thrown (empty when it has none);
  \<^item> \<open>Rewrites s\<close>: the function text is not an expression, and the script it is pasted
    into behaves as \<open>s\<close> (\<open>Malformed\<close> when it does not compile).
\<close>

datatype call =
    Gives "json option"
  | Raises string
  | Rewrites in_page

record elem =
  innerText :: string
  textContent :: string
  outerHTML :: string
  attrs :: "(string \<times> string) list"

text \<open>
  The browser, as far as the handler can observe it:
  \<^item> \<open>active_tabs\<close>: the ids \<^verbatim>\<open>chrome.tabs.query({active: true, currentWindow: true})\<close> gives;
  \<^item> \<open>created_tab\<close>: the id of the tab \<^verbatim>\<open>chrome.tabs.create\<close> opens;
  \<^item> \<open>tab_updates\<close>: the \<^verbatim>\<open>chrome.tabs.onUpdated\<close> events: time, tab id, \<^verbatim>\<open>changeInfo.status\<close>;
  \<^item> \<open>selector_error\<close>: the message of the exception \<^verbatim>\<open>querySelector\<close> throws at a string
    that is not a selector (\<open>None\<close> for a valid selector);
  \<^item> \<open>document\<close>: at a time, the elements of the active tab's page that match a selector,
    in document order;
  \<^item> \<open>host\<close>: what \<^verbatim>\<open>chrome.tabs.executeScript\<close> hands to its callback for a script that
    behaves as given: the time of the callback, \<^verbatim>\<open>chrome.runtime.lastError.message\<close>
    (\<open>None\<close> when no error is set) and \<^verbatim>\<open>results[0]\<close>;
  \<^item> \<open>page_call\<close>: what the page does, at a time, with the code of an evaluate command:
    the function text and the text of the argument list;
  \<^item> \<open>type_error\<close>: the message of the \<^verbatim>\<open>TypeError\<close> that the engine throws at
    \<^verbatim>\<open>str.replace(...)\<close> when \<^verbatim>\<open>str\<close> is the given value and not a string.
\<close>

record browser =
  active_tabs :: "nat list"
  created_tab :: nat
  tab_updates :: "(nat \<times> nat \<times> string) list"
  selector_error :: "string \<Rightarrow> string option"
  document :: "nat \<Rightarrow> string \<Rightarrow> elem list"
  host :: "nat \<Rightarrow> in_page \<Rightarrow> nat \<times> string option \<times> json option"
  page_call :: "nat \<Rightarrow> string \<Rightarrow> string \<Rightarrow> call"
  type_error :: "jsval \<Rightarrow> string"

text \<open>
  A host that runs the script in the page and returns its result or reports its error
  (the capability the specification names): a returned value arrives as \<^verbatim>\<open>results[0]\<close>,
  an exception as \<^verbatim>\<open>lastError\<close> with its message, and a promise is awaited.
\<close>

definition reports :: "browser \<Rightarrow> nat \<Rightarrow> in_page \<Rightarrow> bool" where
  "reports b now script =
     (case script of
        Returns v \<Rightarrow> host b now script = (now, None, v)
      | Throws m \<Rightarrow> host b now script = (now, Some m, None)
      | Malformed \<Rightarrow> (case host b now script of (t, e, r) \<Rightarrow> e \<noteq> None)
      | Promises t (Inr v) \<Rightarrow> host b now script = (t, None, v)
      | Promises t (Inl m) \<Rightarrow> host b now script = (t, Some m, None))"

subsection \<open>Executing a script in the active tab\<close>

definition js_of :: "json option \<Rightarrow> jsval" where
  "js_of r = (case r of None \<Rightarrow> VUndefined | Some j \<Rightarrow> from_json j)"

text \<open>
  \<^verbatim>\<open>executeScriptInActiveTab\<close>: rejects when no tab is active; otherwise the callback
  rejects with \<^verbatim>\<open>lastError.message\<close> when an error is set and resolves with
  \<^verbatim>\<open>results?.[0]\<close> when none is.
\<close>

definition callback :: "nat \<times> string option \<times> json option \<Rightarrow> (thrown + json option) \<times> nat" where
  "callback reply =
     (case reply of
        (t, Some m, r) \<Rightarrow> (Inl (JsError m), t)
      | (t, None, r) \<Rightarrow> (Inr r, t))"

definition executeScriptInActiveTab :: "browser \<Rightarrow> nat \<Rightarrow> in_page \<Rightarrow> (thrown + json option) \<times> nat" where
  "executeScriptInActiveTab b now script =
     (if active_tabs b = [] then (Inl (JsError ''No active tab found''), now)
      else callback (host b now script))"

definition as_outcome :: "(thrown + json option) \<times> nat \<Rightarrow> settled" where
  "as_outcome r = (case r of (Inl e, t) \<Rightarrow> (Rejected e, t) | (Inr v, t) \<Rightarrow> (Resolved (js_of v), t))"

subsection \<open>Selectors in generated scripts\<close>

text \<open>
  \<^verbatim>\<open>escapeString\<close>: three replacements, one after the other.
\<close>

definition replace_all :: "char \<Rightarrow> string \<Rightarrow> string \<Rightarrow> string" where
  "replace_all c r s = concat (map (\<lambda>x. if x = c then r else [x]) s)"

definition escapeString :: "string \<Rightarrow> string" where
  "escapeString str =
     replace_all dquote [backslash, dquote]
       (replace_all squote [backslash, squote]
         (replace_all backslash [backslash, backslash] str))"

text \<open>
  The scripts place the escaped text between single quotes. \<open>string_literal body\<close> is
  the string that the JavaScript literal \<^verbatim>\<open>'body'\<close> denotes, \<open>None\<close> when
  \<^verbatim>\<open>'body'\<close> is not one string literal: an unescaped quote ends the literal early, and a
  line feed or carriage return inside a literal is a syntax error. Of the escape
  sequences only the three that \<open>escapeString\<close> writes are read; no other can follow a
  backslash in its output.
\<close>

fun string_literal :: "string \<Rightarrow> string option" where
  "string_literal [] = Some []"
| "string_literal [c] =
     (if c = squote \<or> c = backslash \<or> (of_char c :: nat) = 10 \<or> (of_char c :: nat) = 13 then None
      else Some [c])"
| "string_literal (c # e # r) =
     (if c = squote \<or> (of_char c :: nat) = 10 \<or> (of_char c :: nat) = 13 then None
      else if c = backslash then
        (if e = backslash \<or> e = squote \<or> e = dquote then map_option ((#) e) (string_literal r)
         else None)
      else map_option ((#) c) (string_literal (e # r)))"

definition with_literal :: "string \<Rightarrow> (string \<Rightarrow> in_page) \<Rightarrow> in_page" where
  "with_literal str k = (case string_literal (escapeString str) of None \<Rightarrow> Malformed | Some s \<Rightarrow> k s)"

text \<open>
  \<^verbatim>\<open>document.querySelectorAll\<close>, and \<^verbatim>\<open>document.querySelector\<close> with the test
  \<^verbatim>\<open>if (!element) throw new Error(...)\<close> that follows it in five scripts. What the scripts
  then do to the element (click, focus, assign a value, dispatch events) stays inside the
  page and is no part of what they return.
\<close>

definition querySelectorAll :: "browser \<Rightarrow> nat \<Rightarrow> string \<Rightarrow> string + elem list" where
  "querySelectorAll b t s =
     (case selector_error b s of Some m \<Rightarrow> Inl m | None \<Rightarrow> Inr (document b t s))"

definition with_element :: "browser \<Rightarrow> nat \<Rightarrow> string \<Rightarrow> string \<Rightarrow> json \<Rightarrow> in_page" where
  "with_element b t s not_found result =
     (case querySelectorAll b t s of
        Inl m \<Rightarrow> Throws m
      | Inr [] \<Rightarrow> Throws (not_found @ s)
      | Inr (element # others) \<Rightarrow> Returns (Some result))"

definition with_elements :: "browser \<Rightarrow> nat \<Rightarrow> string \<Rightarrow> (elem \<Rightarrow> json) \<Rightarrow> in_page" where
  "with_elements b t s f =
     (case querySelectorAll b t s of
        Inl m \<Rightarrow> Throws m
      | Inr [] \<Rightarrow> Throws (''No elements found: '' @ s)
      | Inr (element # others) \<Rightarrow> Returns (Some (JArr (map f (element # others)))))"

subsection \<open>Content interaction\<close>

definition clickElement :: "browser \<Rightarrow> nat \<Rightarrow> string \<Rightarrow> settled" where
  "clickElement b now selector =
     as_outcome (executeScriptInActiveTab b now
       (with_literal selector (\<lambda>s.
          with_element b now s ''Element not found: ''
            (JObj [(''clicked'', JBool True), (''selector'', JStr s)]))))"

definition fillForm :: "browser \<Rightarrow> nat \<Rightarrow> string \<Rightarrow> string \<Rightarrow> settled" where
  "fillForm b now selector text =
     as_outcome (executeScriptInActiveTab b now
       (with_literal selector (\<lambda>s. with_literal text (\<lambda>v.
          with_element b now s ''Form element not found: ''
            (JObj [(''filled'', JBool True), (''selector'', JStr s)])))))"

definition selectOption :: "browser \<Rightarrow> nat \<Rightarrow> string \<Rightarrow> string \<Rightarrow> settled" where
  "selectOption b now selector val =
     as_outcome (executeScriptInActiveTab b now
       (with_literal selector (\<lambda>s. with_literal val (\<lambda>v.
          with_element b now s ''Select element not found: ''
            (JObj [(''selected'', JBool True), (''selector'', JStr s), (''value'', JStr v)])))))"

definition hoverElement :: "browser \<Rightarrow> nat \<Rightarrow> string \<Rightarrow> settled" where
  "hoverElement b now selector =
     as_outcome (executeScriptInActiveTab b now
       (with_literal selector (\<lambda>s.
          with_element b now s ''Element not found: ''
            (JObj [(''hovered'', JBool True), (''selector'', JStr s)]))))"

definition focusElement :: "browser \<Rightarrow> nat \<Rightarrow> string \<Rightarrow> settled" where
  "focusElement b now selector =
     as_outcome (executeScriptInActiveTab b now
       (with_literal selector (\<lambda>s.
          with_element b now s ''Element not found: ''
            (JObj [(''focused'', JBool True), (''selector'', JStr s)]))))"

subsection \<open>Content extraction\<close>

definition extractText :: "browser \<Rightarrow> nat \<Rightarrow> string \<Rightarrow> settled" where
  "extractText b now selector =
     as_outcome (executeScriptInActiveTab b now
       (with_literal selector (\<lambda>s.
          with_elements b now s
            (\<lambda>el. JStr (if innerText el \<noteq> [] then innerText el else textContent el)))))"

definition extractHtml :: "browser \<Rightarrow> nat \<Rightarrow> string \<Rightarrow> settled" where
  "extractHtml b now selector =
     as_outcome (executeScriptInActiveTab b now
       (with_literal selector (\<lambda>s. with_elements b now s (\<lambda>el. JStr (outerHTML el)))))"

definition extractAttribute :: "browser \<Rightarrow> nat \<Rightarrow> string \<Rightarrow> string \<Rightarrow> settled" where
  "extractAttribute b now selector attribute =
     as_outcome (executeScriptInActiveTab b now
       (with_literal selector (\<lambda>s. with_literal attribute (\<lambda>a.
          with_elements b now s
            (\<lambda>el. case map_of (attrs el) a of None \<Rightarrow> JNull | Some v \<Rightarrow> JStr v)))))"

text \<open>
  JavaScript's truth test and string conversion, on the values a script can return.
\<close>

fun truthy :: "json \<Rightarrow> bool" where
  "truthy JNull = False"
| "truthy (JBool b) = b"
| "truthy (JNum n) = (n \<noteq> 0)"
| "truthy (JStr s) = (s \<noteq> [])"
| "truthy (JArr xs) = True"
| "truthy (JObj kvs) = True"

fun ToString :: "json \<Rightarrow> string"
  and join_elements :: "json list \<Rightarrow> string list" where
  "ToString JNull = ''null''"
| "ToString (JBool b) = (if b then ''true'' else ''false'')"
| "ToString (JNum n) = Number_toString n"
| "ToString (JStr s) = s"
| "ToString (JArr xs) = join_comma (join_elements xs)"
| "ToString (JObj kvs) = ''[object Object]''"
| "join_elements [] = []"
| "join_elements (x # xs) = (if x = JNull then [] else ToString x) # join_elements xs"

text \<open>\<^verbatim>\<open>result.error\<close>: the property of an object; other JSON values have no such property.\<close>

definition error_field :: "json \<Rightarrow> json option" where
  "error_field r = (case r of JObj kvs \<Rightarrow> map_of kvs ''error'' | _ \<Rightarrow> None)"

text \<open>
  \<^verbatim>\<open>evaluateFunction(functionStr, argsStr)\<close>. The arguments are parsed first
  (\<^verbatim>\<open>JSON.parse(argsStr || '[]')\<close>, the empty list when that throws) and written back into
  the script with \<^verbatim>\<open>JSON.stringify(args)\<close>. The result is \<open>None\<close> where the argument text
  is JSON that the model's numbers do not cover.
\<close>

definition parse_arguments :: "string option \<Rightarrow> json option" where
  "parse_arguments argsStr =
     (case JSON_parse (case argsStr of None \<Rightarrow> ''[]'' | Some a \<Rightarrow> if a = [] then ''[]'' else a) of
        Inr args \<Rightarrow> Some args
      | Inl SyntaxError \<Rightarrow> Some (JArr [])
      | Inl NotModelled \<Rightarrow> None)"

definition check_result :: "(thrown + json option) \<times> nat \<Rightarrow> settled" where
  "check_result r =
     (case r of
        (Inl e, t) \<Rightarrow> (Rejected e, t)
      | (Inr None, t) \<Rightarrow> (Resolved VUndefined, t)
      | (Inr (Some result), t) \<Rightarrow>
          (case (if truthy result then error_field result else None) of
             Some err \<Rightarrow>
               if truthy err then (Rejected (JsError (ToString err)), t)
               else (Resolved (from_json result), t)
           | None \<Rightarrow> (Resolved (from_json result), t)))"

text \<open>
  The function that the script of \<^verbatim>\<open>evaluateFunction\<close> defines and calls: the value of the
  call, or the object of the \<^verbatim>\<open>catch\<close> clause,
  \<^verbatim>\<open>{ error: error.message || 'Unknown error during evaluation' }\<close>.
\<close>

definition guarded_call :: "call \<Rightarrow> json option" where
  "guarded_call c =
     (case c of
        Gives v \<Rightarrow> v
      | Raises m \<Rightarrow>
          Some (JObj [(''error'', JStr (if m = [] then ''Unknown error during evaluation'' else m))])
      | Rewrites s \<Rightarrow> None)"

text \<open>
  The script is the statement \<^verbatim>\<open>(function() { try { ... } catch (error) { ... } })();\<close>,
  and \<^verbatim>\<open>executeScriptInActiveTab\<close> runs it as the body of another function,
  \<^verbatim>\<open>(function() { <script> })()\<close>. The other scripts of this file end in a \<^verbatim>\<open>return\<close>
  statement of that body; this one is an expression statement, so the body has no
  \<^verbatim>\<open>return\<close>: the value of the call is dropped and the outer function returns \<^verbatim>\<open>undefined\<close>.
\<close>

definition expression_statement :: "json option \<Rightarrow> json option" where
  "expression_statement v = None"

definition evaluate_script :: "call \<Rightarrow> in_page" where
  "evaluate_script c =
     (case c of
        Rewrites s \<Rightarrow> s
      | _ \<Rightarrow> Returns (expression_statement (guarded_call c)))"

definition evaluateFunction :: "browser \<Rightarrow> nat \<Rightarrow> string \<Rightarrow> string option \<Rightarrow> settled option" where
  "evaluateFunction b now functionStr argsStr =
     (case parse_arguments argsStr of
        None \<Rightarrow> None
      | Some args \<Rightarrow>
          Some (check_result
                 (executeScriptInActiveTab b now
                    (evaluate_script (page_call b now functionStr (message_text (from_json args)))))))"

subsection \<open>Navigation and waiting\<close>

text \<open>
  The first \<^verbatim>\<open>onUpdated\<close> event with status \<^verbatim>\<open>complete\<close> for the tab, from the time the
  listener is added and before the timer of the wait fires.
\<close>

definition earliest :: "nat list \<Rightarrow> nat option" where
  "earliest ts = (case ts of [] \<Rightarrow> None | t # r \<Rightarrow> Some (fold min r t))"

definition load_complete :: "browser \<Rightarrow> nat \<Rightarrow> nat \<Rightarrow> nat \<Rightarrow> nat option" where
  "load_complete b tabId from deadline =
     earliest (map fst (filter (\<lambda>(t, changedTabId, status).
        changedTabId = tabId \<and> status = ''complete'' \<and> from \<le> t \<and> t < deadline) (tab_updates b)))"

text \<open>\<^verbatim>\<open>waitForTabLoad\<close> always resolves; its result here is the time at which it does.\<close>

definition waitForTabLoad :: "browser \<Rightarrow> nat \<Rightarrow> nat \<Rightarrow> nat" where
  "waitForTabLoad b tabId now =
     (case load_complete b tabId now (now + 30000) of Some t \<Rightarrow> t | None \<Rightarrow> now + 30000)"

definition navigateToUrl :: "browser \<Rightarrow> nat \<Rightarrow> jsval \<Rightarrow> settled" where
  "navigateToUrl b now url =
     (case active_tabs b of
        [] \<Rightarrow>
          (Resolved (VObj [(''success'', VBool True), (''url'', url)]), waitForTabLoad b (created_tab b) now)
      | tab # others \<Rightarrow>
          (Resolved (VObj [(''success'', VBool True), (''url'', url)]), waitForTabLoad b tab now))"

definition reloadPage :: "browser \<Rightarrow> nat \<Rightarrow> settled" where
  "reloadPage b now =
     (case active_tabs b of
        [] \<Rightarrow> (Rejected (JsError ''No active tab found''), now)
      | tabId # others \<Rightarrow> (Resolved (VObj [(''success'', VBool True)]), waitForTabLoad b tabId now))"

definition navigateBack :: "browser \<Rightarrow> nat \<Rightarrow> settled" where
  "navigateBack b now =
     as_outcome (executeScriptInActiveTab b now (Returns (Some (JObj [(''success'', JBool True)]))))"

definition navigateForward :: "browser \<Rightarrow> nat \<Rightarrow> settled" where
  "navigateForward b now =
     as_outcome (executeScriptInActiveTab b now (Returns (Some (JObj [(''success'', JBool True)]))))"

text \<open>
  The polling loop of \<^verbatim>\<open>waitForElement\<close>, run in the page: \<^verbatim>\<open>checkElement\<close> at time \<open>t\<close>
  resolves when an element matches, rejects when more than \<open>timeout\<close> milliseconds have
  passed since \<open>start\<close>, and otherwise runs again 100 ms later.
\<close>

function checkElement :: "browser \<Rightarrow> string \<Rightarrow> int \<Rightarrow> nat \<Rightarrow> nat \<Rightarrow> nat \<times> (string + json option)" where
  "checkElement b s timeout start t =
     (if document b t s \<noteq> [] then (t, Inr (Some (JObj [(''found'', JBool True), (''selector'', JStr s)])))
      else if int t - int start > timeout then (t, Inl (''Timeout waiting for element: '' @ s))
      else checkElement b s timeout start (t + 100))"
  by pat_completeness auto
termination
  by (relation "measure (\<lambda>(b, s, timeout, start, t). nat (int start + timeout + 100 - int t))") auto

declare checkElement.simps [simp del]

definition waitForElement :: "browser \<Rightarrow> nat \<Rightarrow> string \<Rightarrow> int option \<Rightarrow> settled" where
  "waitForElement b now selector timeout =
     as_outcome (executeScriptInActiveTab b now
       (with_literal selector (\<lambda>s.
          case selector_error b s of
            Some m \<Rightarrow> Promises now (Inl m)
          | None \<Rightarrow>
              (case checkElement b s (case timeout of None \<Rightarrow> 10000 | Some n \<Rightarrow> n) now now of
                 (t, r) \<Rightarrow> Promises t r))))"

text \<open>
  \<^verbatim>\<open>setTimeout(f, timeout)\<close> takes its delay as a 32-bit signed integer: the number is
  reduced modulo \<open>2^32\<close> into the range from \<open>-2^31\<close>, and a negative delay is no delay.
\<close>

definition timer_delay :: "int \<Rightarrow> nat" where
  "timer_delay n = (let m = (n + 2 ^ 31) mod 2 ^ 32 - 2 ^ 31 in if m < 0 then 0 else nat m)"

definition waitForNavigation :: "browser \<Rightarrow> nat \<Rightarrow> int option \<Rightarrow> settled" where
  "waitForNavigation b now timeout =
     (case active_tabs b of
        [] \<Rightarrow> (Rejected (JsError ''No active tab found''), now)
      | tabId # others \<Rightarrow>
          (let deadline = now + timer_delay (case timeout of None \<Rightarrow> 30000 | Some n \<Rightarrow> n) in
           case load_complete b tabId now deadline of
             Some t \<Rightarrow> (Resolved (VObj [(''success'', VBool True)]), t)
           | None \<Rightarrow> (Resolved (VObj [(''success'', VBool True), (''timedOut'', VBool True)]), deadline)))"

definition waitForTimeout :: "nat \<Rightarrow> int option \<Rightarrow> settled" where
  "waitForTimeout now timeout =
     (let n = (case timeout of None \<Rightarrow> 1000 | Some n \<Rightarrow> n)
      in (Resolved (VObj [(''success'', VBool True), (''waited'', VNum n)]), now + timer_delay n))"

definition handleExit :: jsval where
  "handleExit = VObj [(''exited'', VBool True)]"

subsection \<open>Dispatch\<close>

text \<open>
  \<^verbatim>\<open>params\<close> is a \<^verbatim>\<open>Record<string, any>\<close>: the parameters are whatever the packet held.
  \<^item> A selector, text, value or attribute goes through \<^verbatim>\<open>escapeString\<close>, whose
    \<^verbatim>\<open>str.replace\<close> throws a \<^verbatim>\<open>TypeError\<close> at anything but a string, before the script is
    run. The template of a script evaluates its holes from left to right, so the first
    parameter that is not a string is the one reported.
  \<^item> The function and the arguments of \<^verbatim>\<open>evaluate\<close> are converted to strings, by the
    template and by \<^verbatim>\<open>JSON.parse\<close>; \<^verbatim>\<open>argsStr || '[]'\<close> replaces a falsy value.
  \<^item> A timeout is \<^verbatim>\<open>undefined\<close>, and takes its default, or a number. For another value
    the conversions of \<^verbatim>\<open>setTimeout\<close> and of the script template are not modelled, and
    \<open>executeCommand\<close> is \<open>None\<close>; so it is for parameters that hold \<^verbatim>\<open>undefined\<close> or a
    date inside, which no packet off the wire does.
\<close>

definition param :: "(string \<times> jsval) list \<Rightarrow> string \<Rightarrow> jsval" where
  "param params name = (case map_of params name of None \<Rightarrow> VUndefined | Some v \<Rightarrow> v)"

definition with_string ::
  "browser \<Rightarrow> nat \<Rightarrow> (string \<times> jsval) list \<Rightarrow> string \<Rightarrow> (string \<Rightarrow> settled) \<Rightarrow> settled" where
  "with_string b now params name k =
     (case param params name of
        VStr s \<Rightarrow> k s
      | v \<Rightarrow> (Rejected (JsError (type_error b v)), now))"

fun json_of :: "jsval \<Rightarrow> json option"
  and json_of_list :: "jsval list \<Rightarrow> json list option"
  and json_of_members :: "(string \<times> jsval) list \<Rightarrow> (string \<times> json) list option" where
  "json_of VUndefined = None"
| "json_of VNull = Some JNull"
| "json_of (VBool b) = Some (JBool b)"
| "json_of (VNum n) = Some (JNum n)"
| "json_of (VStr s) = Some (JStr s)"
| "json_of (VDate t) = None"
| "json_of (VArr xs) = map_option JArr (json_of_list xs)"
| "json_of (VObj kvs) = map_option JObj (json_of_members kvs)"
| "json_of_list [] = Some []"
| "json_of_list (x # xs) =
     (case (json_of x, json_of_list xs) of (Some j, Some js) \<Rightarrow> Some (j # js) | _ \<Rightarrow> None)"
| "json_of_members [] = Some []"
| "json_of_members ((k, v) # kvs) =
     (case (json_of v, json_of_members kvs) of (Some j, Some js) \<Rightarrow> Some ((k, j) # js) | _ \<Rightarrow> None)"

text \<open>The text that \<^verbatim>\<open>${functionStr}\<close> puts into the script.\<close>

definition function_text :: "jsval \<Rightarrow> string option" where
  "function_text v = (case v of VUndefined \<Rightarrow> Some ''undefined'' | _ \<Rightarrow> map_option ToString (json_of v))"

text \<open>
  The text that \<^verbatim>\<open>JSON.parse(argsStr || '[]')\<close> reads: \<open>Some None\<close> stands for the default
  \<^verbatim>\<open>'[]'\<close>, which a falsy value takes.
\<close>

definition arguments_text :: "jsval \<Rightarrow> string option option" where
  "arguments_text v =
     (case v of
        VUndefined \<Rightarrow> Some None
      | _ \<Rightarrow> map_option (\<lambda>j. if truthy j then Some (ToString j) else None) (json_of v))"

definition number_param :: "(string \<times> jsval) list \<Rightarrow> string \<Rightarrow> int option option" where
  "number_param params name =
     (case param params name of VUndefined \<Rightarrow> Some None | VNum n \<Rightarrow> Some (Some n) | _ \<Rightarrow> None)"

definition is_command :: "string \<Rightarrow> string \<Rightarrow> bool" where
  "is_command command name \<longleftrightarrow> VStr command = enum_member CommandType name"

definition executeCommand :: "browser \<Rightarrow> nat \<Rightarrow> string \<Rightarrow> (string \<times> jsval) list \<Rightarrow> settled option" where
  "executeCommand b now command params =
     (if is_command command ''GOTO'' then Some (navigateToUrl b now (param params ''url''))
      else if is_command command ''RELOAD'' then Some (reloadPage b now)
      else if is_command command ''BACK'' then Some (navigateBack b now)
      else if is_command command ''FORWARD'' then Some (navigateForward b now)
      else if is_command command ''CLICK'' then
        Some (with_string b now params ''selector'' (clickElement b now))
      else if is_command command ''TYPE'' then
        Some (with_string b now params ''selector'' (\<lambda>selector.
                with_string b now params ''text'' (fillForm b now selector)))
      else if is_command command ''SELECT'' then
        Some (with_string b now params ''selector'' (\<lambda>selector.
                with_string b now params ''value'' (selectOption b now selector)))
      else if is_command command ''HOVER'' then
        Some (with_string b now params ''selector'' (hoverElement b now))
      else if is_command command ''FOCUS'' then
        Some (with_string b now params ''selector'' (focusElement b now))
      else if is_command command ''GET_TEXT'' then
        Some (with_string b now params ''selector'' (extractText b now))
      else if is_command command ''GET_HTML'' then
        Some (with_string b now params ''selector'' (extractHtml b now))
      else if is_command command ''GET_ATTRIBUTE'' then
        Some (with_string b now params ''selector'' (\<lambda>selector.
                with_string b now params ''attribute'' (extractAttribute b now selector)))
      else if is_command command ''EVALUATE'' then
        (case (function_text (param params ''function''), arguments_text (param params ''arguments'')) of
           (Some functionStr, Some argsStr) \<Rightarrow> evaluateFunction b now functionStr argsStr
         | _ \<Rightarrow> None)
      else if is_command command ''WAIT_FOR_SELECTOR'' then
        (case number_param params ''timeout'' of
           Some timeout \<Rightarrow>
             Some (with_string b now params ''selector'' (\<lambda>selector. waitForElement b now selector timeout))
         | None \<Rightarrow> None)
      else if is_command command ''WAIT_FOR_NAVIGATION'' then
        map_option (waitForNavigation b now) (number_param params ''timeout'')
      else if is_command command ''WAIT_FOR_TIMEOUT'' then
        map_option (waitForTimeout now) (number_param params ''timeout'')
      else if is_command command ''EXIT'' then Some (Resolved handleExit, now)
      else Some (Rejected (JsError (''Unknown command: '' @ command)), now))"

subsection \<open>Processing a command and sending its result\<close>

text \<open>
  \<^verbatim>\<open>sendCommandResult\<close> builds the result packet and hands it to
  \<^verbatim>\<open>sendWebSocketMessage\<close>. \<^verbatim>\<open>error || undefined\<close> is \<^verbatim>\<open>undefined\<close> for \<^verbatim>\<open>null\<close> and for the
  empty string. \<^verbatim>\<open>Date.now()\<close> is the time at which the command settled.
\<close>

definition resultPacket :: "string \<Rightarrow> string \<Rightarrow> bool \<Rightarrow> jsval \<Rightarrow> string option \<Rightarrow> nat \<Rightarrow> jsval" where
  "resultPacket commandId accessCode success result error now =
     VObj [(''type'', enum_member PacketType ''COMMAND_RESULT''),
           (''data'',
            VObj [(''commandId'', VStr commandId),
                  (''accessCode'', VStr accessCode),
                  (''success'', VBool success),
                  (''result'', result),
                  (''error'', (case error of None \<Rightarrow> VUndefined
                                | Some m \<Rightarrow> if m = [] then VUndefined else VStr m)),
                  (''timestamp'', VNum (int now))])]"

definition sendCommandResult ::
  "string \<Rightarrow> string \<Rightarrow> bool \<Rightarrow> jsval \<Rightarrow> string option \<Rightarrow> nat \<Rightarrow> ws_state \<Rightarrow> ws_state \<times> send_result" where
  "sendCommandResult commandId accessCode success result error now st =
     sendWebSocketMessage (resultPacket commandId accessCode success result error now) st"

text \<open>
  \<^verbatim>\<open>processCommand\<close>: \<^verbatim>\<open>result\<close> starts as \<^verbatim>\<open>null\<close>, \<^verbatim>\<open>success\<close> as \<^verbatim>\<open>true\<close>, \<^verbatim>\<open>error\<close> as
  \<^verbatim>\<open>null\<close>; the \<^verbatim>\<open>catch\<close> clause sets \<^verbatim>\<open>success\<close> and \<^verbatim>\<open>error\<close>. \<open>answer\<close> is what the method
  does once \<^verbatim>\<open>await this.executeCommand(command, params)\<close> has settled, resolved or
  rejected.
\<close>

definition answer :: "CommandData \<Rightarrow> settled \<Rightarrow> ws_state \<Rightarrow> ws_state \<times> send_result" where
  "answer d r st =
     (case r of
        (Resolved result, t) \<Rightarrow>
          sendCommandResult (cmd_commandId d) (cmd_accessCode d) True result None t st
      | (Rejected err, t) \<Rightarrow>
          sendCommandResult (cmd_commandId d) (cmd_accessCode d) False VNull
            (Some (case err of JsError m \<Rightarrow> m | Thrown v \<Rightarrow> ''Unknown error'')) t st)"

definition processCommand ::
  "browser \<Rightarrow> nat \<Rightarrow> CommandData \<Rightarrow> ws_state \<Rightarrow> (ws_state \<times> send_result) option" where
  "processCommand b now d st =
     map_option (\<lambda>r. answer d r st) (executeCommand b now (cmd_command d) (cmd_params d))"

section \<open>Identity (background.ts)\<close>

text \<open>
  \<^verbatim>\<open>generateAccessCode\<close>: \<^verbatim>\<open>Math.floor(100000 + Math.random() * 900000).toString()\<close>, as a
  function of the number \<open>r\<close> that \<^verbatim>\<open>Math.random()\<close> returned, a double with \<open>0 \<le> r < 1\<close>.
  The product and the sum are each rounded to a double; \<^verbatim>\<open>Math.floor\<close> is exact.
\<close>

definition generateAccessCode :: "real \<Rightarrow> string" where
  "generateAccessCode r = Number_toString \<lfloor>fl (100000 + fl (r * 900000))\<rfloor>"

text \<open>
  \<^verbatim>\<open>keepAlive\<close>. The durable store holds at most the one key \<^verbatim>\<open>accessCode\<close>, with a string
  value: \<open>None\<close> when the key is absent. \<^verbatim>\<open>storage.accessCode || generateAccessCode()\<close>
  and \<^verbatim>\<open>!storage.accessCode\<close> test truth: the empty string counts as absent. The function
  takes what it reads from its surroundings: the random number, \<^verbatim>\<open>navigator.userAgent\<close>
  and the ISO text of \<^verbatim>\<open>new Date()\<close>. It returns the access code it used with the new
  store and transport state.
\<close>

definition stored_truthy :: "string option \<Rightarrow> bool" where
  "stored_truthy s = (case s of None \<Rightarrow> False | Some c \<Rightarrow> c \<noteq> [])"

definition initMessage :: "string \<Rightarrow> string \<Rightarrow> string \<Rightarrow> jsval" where
  "initMessage accessCode userAgent lastOnline =
     VObj [(''type'', enum_member PacketType ''INIT''),
           (''data'',
            VObj [(''accessCode'', VStr accessCode),
                  (''userAgent'', VStr userAgent),
                  (''isOnline'', VBool True),
                  (''lastOnline'', VDate lastOnline)])]"

definition keepAlive ::
  "real \<Rightarrow> string \<Rightarrow> string \<Rightarrow> string option \<times> ws_state \<Rightarrow> string \<times> string option \<times> ws_state" where
  "keepAlive r userAgent date s =
     (case s of (storage, st) \<Rightarrow>
        (let accessCode = (case storage of
                             None \<Rightarrow> generateAccessCode r
                           | Some c \<Rightarrow> if c \<noteq> [] then c else generateAccessCode r);
             storage' = (if \<not> stored_truthy storage then Some accessCode else storage);
             st1 = initializeWebSocket accessCode st;
             st2 = fst (sendWebSocketMessage (initMessage accessCode userAgent date) st1)
         in (accessCode, storage', st2)))"

section \<open>Example environments and the predicates of the statements\<close>

text \<open>
  A host that reports as the specification asks of the script-execution capability, and
  a browser with one active tab (id 1) showing an empty page.
\<close>

definition faithful_host :: "nat \<Rightarrow> in_page \<Rightarrow> nat \<times> string option \<times> json option" where
  "faithful_host now script =
     (case script of
        Returns v \<Rightarrow> (now, None, v)
      | Throws m \<Rightarrow> (now, Some m, None)
      | Malformed \<Rightarrow> (now, Some ''SyntaxError'', None)
      | Promises t (Inr v) \<Rightarrow> (t, None, v)
      | Promises t (Inl m) \<Rightarrow> (t, Some m, None))"

definition empty_page :: browser where
  "empty_page =
     \<lparr>active_tabs = [1], created_tab = 2, tab_updates = [],
      selector_error = (\<lambda>s. None), document = (\<lambda>t s. []),
      host = faithful_host, page_call = (\<lambda>now f a. Gives None),
      type_error = (\<lambda>v. ''str.replace is not a function'')\<rparr>"

text \<open>The case labels of the \<^verbatim>\<open>switch\<close> in \<^verbatim>\<open>executeCommand\<close>.\<close>

definition handled_commands :: "string list" where
  "handled_commands =
     [''goto'', ''reload'', ''back'', ''forward'', ''click'', ''type'', ''select'', ''hover'', ''focus'',
      ''getText'', ''getHtml'', ''getAttribute'', ''evaluate'', ''waitForSelector'',
      ''waitForNavigation'', ''waitForTimeout'', ''exit'']"


text \<open>
  A browser whose active tab (id 1) finishes loading two seconds from now, and one
  whose page has no variable \<^verbatim>\<open>missing\<close>, so that the function
  \<^verbatim>\<open>function() { return missing.length; }\<close> throws a \<^verbatim>\<open>ReferenceError\<close> there.
\<close>

definition slow_page :: browser where
  "slow_page = empty_page\<lparr>tab_updates := [(500, 1, ''loading''), (2000, 1, ''complete'')]\<rparr>"

text \<open>
  A host that does not report what goes wrong in the page: no error is set and \<^verbatim>\<open>results[0]\<close>
  is \<^verbatim>\<open>undefined\<close> for a script that throws or does not compile, and a promise is handed
  back at once, as an empty object, instead of being awaited.
\<close>

definition silent_host :: "nat \<Rightarrow> in_page \<Rightarrow> nat \<times> string option \<times> json option" where
  "silent_host now script =
     (case script of
        Returns v \<Rightarrow> (now, None, v)
      | Throws m \<Rightarrow> (now, None, None)
      | Malformed \<Rightarrow> (now, None, None)
      | Promises t r \<Rightarrow> (now, None, Some (JObj [])))"

definition silent_page :: browser where
  "silent_page = empty_page\<lparr>host := silent_host\<rparr>"

definition throwing_page :: browser where
  "throwing_page =
     empty_page\<lparr>page_call := (\<lambda>now f a.
        if f = ''function() { return missing.length; }'' then Raises ''missing is not defined''
        else Gives None)\<rparr>"

text \<open>
  \<open>faithful b\<close>: the host of \<open>b\<close> reports every script as the specification asks.
  \<open>one_line s\<close>: \<open>s\<close> has no line feed and no carriage return.
\<close>

definition faithful :: "browser \<Rightarrow> bool" where
  "faithful b \<longleftrightarrow> (\<forall>now script. reports b now script)"




text \<open>
  An access code as \<^verbatim>\<open>generateAccessCode\<close> writes it: six decimal digits, the first not 0.
\<close>

definition is_access_code :: "string \<Rightarrow> bool" where
  "is_access_code c \<longleftrightarrow> length c = 6 \<and> list_all is_digit c \<and> hd c \<noteq> CHR ''0''"


text \<open>What a character that follows a value in JSON text can be, besides white space.\<close>

definition follows_value :: "string \<Rightarrow> bool" where
  "follows_value rest \<longleftrightarrow> rest = [] \<or> hd rest = CHR '','' \<or> hd rest = CHR '']'' \<or> hd rest = CHR ''}''"





definition starts_value :: "string \<Rightarrow> bool" where
  "starts_value t \<longleftrightarrow> t \<noteq> [] \<and> \<not> is_ws (hd t) \<and> hd t \<noteq> CHR '']'' \<and> hd t \<noteq> CHR ''}''"



text \<open>
  \<open>frames_on k st\<close>: the frames sent on socket \<open>k\<close>, in order. \<open>well_formed st\<close>: the
  module variable \<^verbatim>\<open>socket\<close>, when set, names a socket that \<^verbatim>\<open>initializeWebSocket\<close> created,
  and every frame was sent on a socket that exists; the initial state is well formed and
  every step keeps a state so. \<open>carries k d fs c st\<close>: socket \<open>k\<close> is a temporary socket of
  \<^verbatim>\<open>sendWebSocketMessage(d)\<close>, the frames sent on it so far are \<open>fs\<close>, and it is no longer
  connecting unless \<open>c\<close> holds.
\<close>

definition frames_on :: "nat \<Rightarrow> ws_state \<Rightarrow> string list" where
  "frames_on k st = map snd (filter (\<lambda>(s, t). s = k) (sent st))"

definition well_formed :: "ws_state \<Rightarrow> bool" where
  "well_formed st \<longleftrightarrow>
     (\<forall>m. socket st = Some m \<longrightarrow>
          m < length (sockets st) \<and> (\<exists>c. ws_handlers (sockets st ! m) = Persistent c))
   \<and> (\<forall>f \<in> set (sent st). fst f < length (sockets st))"

definition carries :: "nat \<Rightarrow> jsval \<Rightarrow> string list \<Rightarrow> bool \<Rightarrow> ws_state \<Rightarrow> bool" where
  "carries k d fs c st \<longleftrightarrow>
     well_formed st \<and> k < length (sockets st)
   \<and> (\<exists>p. ws_handlers (sockets st ! k) = Temporary d p)
   \<and> frames_on k st = fs
   \<and> (c \<or> ws_readyState (sockets st ! k) \<noteq> CONNECTING)"

section \<open>Properties\<close>

subsection \<open>Helper facts\<close>

lemmas ws_defs =
  initial_state_def initializeWebSocket_def socket_is_open_def clear_reconnect_def
  clear_ping_def new_WebSocket_def readyState_of_def set_readyState_def onopen_def ws_send_def
  setTimer_def PING_INTERVAL_MS_def closeWebSocket_def ws_close_def clearTimer_def onclose_def
  RECONNECT_DELAY_MS_def fire_def

lemmas page_defs = empty_page_def slow_page_def throwing_page_def faithful_host_def silent_page_def
  silent_host_def

lemmas script_defs = executeScriptInActiveTab_def callback_def as_outcome_def js_of_def

lemma is_command_simps:
  "is_command c ''GOTO'' \<longleftrightarrow> c = ''goto''"
  "is_command c ''RELOAD'' \<longleftrightarrow> c = ''reload''"
  "is_command c ''BACK'' \<longleftrightarrow> c = ''back''"
  "is_command c ''FORWARD'' \<longleftrightarrow> c = ''forward''"
  "is_command c ''CLICK'' \<longleftrightarrow> c = ''click''"
  "is_command c ''TYPE'' \<longleftrightarrow> c = ''type''"
  "is_command c ''SELECT'' \<longleftrightarrow> c = ''select''"
  "is_command c ''HOVER'' \<longleftrightarrow> c = ''hover''"
  "is_command c ''FOCUS'' \<longleftrightarrow> c = ''focus''"
  "is_command c ''GET_TEXT'' \<longleftrightarrow> c = ''getText''"
  "is_command c ''GET_HTML'' \<longleftrightarrow> c = ''getHtml''"
  "is_command c ''GET_ATTRIBUTE'' \<longleftrightarrow> c = ''getAttribute''"
  "is_command c ''EVALUATE'' \<longleftrightarrow> c = ''evaluate''"
  "is_command c ''WAIT_FOR_SELECTOR'' \<longleftrightarrow> c = ''waitForSelector''"
  "is_command c ''WAIT_FOR_NAVIGATION'' \<longleftrightarrow> c = ''waitForNavigation''"
  "is_command c ''WAIT_FOR_TIMEOUT'' \<longleftrightarrow> c = ''waitForTimeout''"
  "is_command c ''EXIT'' \<longleftrightarrow> c = ''exit''"
  by (simp_all add: is_command_def enum_member_def CommandType_def)

lemma executeCommand_default:
  "command \<notin> set handled_commands \<Longrightarrow>
   executeCommand b now command params = Some (Rejected (JsError (''Unknown command: '' @ command)), now)"
  by (simp add: executeCommand_def is_command_simps handled_commands_def)

lemma registerMessage_text:
  "message_text (registerMessage accessCode) =
     ''{'' @ QuoteJSONString ''data'' @ '':{'' @ QuoteJSONString ''accessCode'' @ '':''
       @ QuoteJSONString accessCode @ ''}}''"
  by (simp add: message_text_def registerMessage_def JSON_stringify_def enum_member_def PacketType_def)

subsection \<open>C2: closing the connection\<close>

text \<open>
  C2 says that after \<^verbatim>\<open>closeWebSocket()\<close> on an open connection no reconnect is scheduled
  or performed until \<^verbatim>\<open>initializeWebSocket\<close> is called again. The code does otherwise.
  Connect with access code 123456, let the socket open, call \<^verbatim>\<open>closeWebSocket\<close>: the
  module variables are cleared and no timer is armed, but the socket, now closing, keeps
  its \<^verbatim>\<open>onclose\<close> handler. When its close event arrives the handler arms the reconnect
  timer (handle 2, 5000 ms), and when that timer fires a second socket is created and is
  connecting, with no call of \<^verbatim>\<open>initializeWebSocket\<close> from outside.
\<close>

theorem close_is_followed_by_reconnect:
  "map_option (\<lambda>st. (socket st, reconnectTimeout st, pingInterval st, timers st, map ws_readyState (sockets st)))
     (run initial_state [Call_initializeWebSocket ''123456'', Socket_open 0, Call_closeWebSocket])
   = Some (None, None, None, [], [CLOSING])
 \<and> map_option (\<lambda>st. (socket st, reconnectTimeout st, pingInterval st, timers st, map ws_readyState (sockets st)))
     (run initial_state [Call_initializeWebSocket ''123456'', Socket_open 0, Call_closeWebSocket, Socket_close 0])
   = Some (None, Some 2, None, [(2, RECONNECT_DELAY_MS, Reconnect ''123456'')], [CLOSED])
 \<and> map_option (\<lambda>st. (socket st, reconnectTimeout st, pingInterval st, timers st, map ws_readyState (sockets st)))
     (run initial_state [Call_initializeWebSocket ''123456'', Socket_open 0, Call_closeWebSocket, Socket_close 0,
                         Timer_fire 2])
   = Some (Some 1, None, None, [], [CLOSED, CONNECTING])"
  by (simp add: ws_defs)

subsection \<open>C3: the registration message\<close>

text \<open>
  C3 says that the registration message sent when the connection opens carries the
  access code and that its kind tag is one of the declared packet kinds. The message does
  carry the access code, but its tag is \<^verbatim>\<open>PacketType.REGISTER\<close>, and the enum declares no
  such member: the property read gives \<^verbatim>\<open>undefined\<close>, \<^verbatim>\<open>JSON.stringify\<close> leaves the \<^verbatim>\<open>type\<close>
  property out, and the frame on the wire is \<^verbatim>\<open>{"data":{"accessCode":"123456"}}\<close>, which
  decodes to an object with no kind tag at all.
\<close>

theorem registration_message_untagged:
  "enum_member PacketType ''REGISTER'' = VUndefined
 \<and> ''REGISTER'' \<notin> set declared_kinds
 \<and> map_option sent (run initial_state [Call_initializeWebSocket ''123456'', Socket_open 0]) =
     Some [(0, ''{'' @ QuoteJSONString ''data'' @ '':{'' @ QuoteJSONString ''accessCode'' @ '':''
               @ QuoteJSONString ''123456'' @ ''}}'')]
 \<and> decode (''{'' @ QuoteJSONString ''data'' @ '':{'' @ QuoteJSONString ''accessCode'' @ '':''
               @ QuoteJSONString ''123456'' @ ''}}'') =
     Inr (JObj [(''data'', JObj [(''accessCode'', JStr ''123456'')])])
 \<and> map_of [(''data'', JObj [(''accessCode'', JStr ''123456'')])] ''type'' = None"
proof -
  have a: "enum_member PacketType ''REGISTER'' = VUndefined \<and> ''REGISTER'' \<notin> set declared_kinds"
    by (simp add: enum_member_def PacketType_def declared_kinds_def)
  have b: "map_option sent (run initial_state [Call_initializeWebSocket ''123456'', Socket_open 0]) =
     Some [(0, message_text (registerMessage ''123456''))]"
    by (simp add: ws_defs)
  have c: "decode (''{'' @ QuoteJSONString ''data'' @ '':{'' @ QuoteJSONString ''accessCode'' @ '':''
               @ QuoteJSONString ''123456'' @ ''}}'') =
     Inr (JObj [(''data'', JObj [(''accessCode'', JStr ''123456'')])])"
    unfolding decode_def by code_simp
  show ?thesis using a b c by (simp add: registerMessage_text)
qed

subsection \<open>C8: unknown command names\<close>

text \<open>
  C8: for every command name that is not a case label of the dispatch, execution fails
  with the error \<^verbatim>\<open>Unknown command: \<close> followed by the name, and the result packet that
  \<^verbatim>\<open>processCommand\<close> hands to \<^verbatim>\<open>sendWebSocketMessage\<close> has \<^verbatim>\<open>success\<close> false and that error
  string.
\<close>

theorem unknown_command_fails:
  assumes "cmd_command d \<notin> set handled_commands"
  shows "executeCommand b now (cmd_command d) (cmd_params d) =
           Some (Rejected (JsError (''Unknown command: '' @ cmd_command d)), now)
       \<and> processCommand b now d st =
           Some (sendWebSocketMessage
                  (VObj [(''type'', VStr ''COMMAND_RESULT''),
                         (''data'',
                          VObj [(''commandId'', VStr (cmd_commandId d)),
                                (''accessCode'', VStr (cmd_accessCode d)),
                                (''success'', VBool False),
                                (''result'', VNull),
                                (''error'', VStr (''Unknown command: '' @ cmd_command d)),
                                (''timestamp'', VNum (int now))])]) st)"
  using executeCommand_default [OF assms]
  by (simp add: processCommand_def answer_def sendCommandResult_def resultPacket_def enum_member_def PacketType_def)

theorem unknown_command_fails_witness:
  "''unknownThing'' \<notin> set handled_commands
 \<and> processCommand empty_page 0
      \<lparr>cmd_accessCode = ''123456'', cmd_commandId = ''abc'', cmd_command = ''unknownThing'',
       cmd_params = [], cmd_timestamp = 0\<rparr> initial_state =
    Some (sendWebSocketMessage
           (VObj [(''type'', VStr ''COMMAND_RESULT''),
                  (''data'',
                   VObj [(''commandId'', VStr ''abc''),
                         (''accessCode'', VStr ''123456''),
                         (''success'', VBool False),
                         (''result'', VNull),
                         (''error'', VStr ''Unknown command: unknownThing''),
                         (''timestamp'', VNum 0)])]) initial_state)"
proof -
  have h: "cmd_command \<lparr>cmd_accessCode = ''123456'', cmd_commandId = ''abc'', cmd_command = ''unknownThing'',
       cmd_params = [], cmd_timestamp = 0\<rparr> \<notin> set handled_commands"
    by (simp add: handled_commands_def)
  show ?thesis
    using h unknown_command_fails [OF h, of empty_page 0 initial_state] by simp
qed

subsection \<open>C10: screenshot and pdf\<close>

text \<open>
  C10: \<^verbatim>\<open>screenshot\<close> and \<^verbatim>\<open>pdf\<close> are members of the command enumeration, the dispatch
  has no case for either, and so a command with either name, whatever its parameters,
  ends in the default branch and gets a result packet with \<^verbatim>\<open>success\<close> false and the error
  \<^verbatim>\<open>Unknown command: screenshot\<close> or \<^verbatim>\<open>Unknown command: pdf\<close>.
\<close>

theorem screenshot_pdf_unhandled:
  "map_of CommandType ''SCREENSHOT'' = Some ''screenshot''
 \<and> map_of CommandType ''PDF'' = Some ''pdf''
 \<and> executeCommand b now ''screenshot'' params =
     Some (Rejected (JsError ''Unknown command: screenshot''), now)
 \<and> executeCommand b now ''pdf'' params =
     Some (Rejected (JsError ''Unknown command: pdf''), now)
 \<and> processCommand b now (d\<lparr>cmd_command := ''screenshot''\<rparr>) st =
     Some (sendCommandResult (cmd_commandId d) (cmd_accessCode d) False VNull
            (Some ''Unknown command: screenshot'') now st)
 \<and> processCommand b now (d\<lparr>cmd_command := ''pdf''\<rparr>) st =
     Some (sendCommandResult (cmd_commandId d) (cmd_accessCode d) False VNull
            (Some ''Unknown command: pdf'') now st)
 \<and> resultPacket (cmd_commandId d) (cmd_accessCode d) False VNull (Some ''Unknown command: pdf'') now =
     VObj [(''type'', VStr ''COMMAND_RESULT''),
           (''data'',
            VObj [(''commandId'', VStr (cmd_commandId d)),
                  (''accessCode'', VStr (cmd_accessCode d)),
                  (''success'', VBool False),
                  (''result'', VNull),
                  (''error'', VStr ''Unknown command: pdf''),
                  (''timestamp'', VNum (int now))])]"
  by (simp add: processCommand_def answer_def executeCommand_def is_command_simps CommandType_def
      resultPacket_def enum_member_def PacketType_def)

subsection \<open>C7: the access code\<close>

lemma dec_small: "n < 10 \<Longrightarrow> dec n = [char_of (48 + n)]"
  by (subst dec.simps) simp

lemma dec_step: "10 \<le> n \<Longrightarrow> dec n = dec (n div 10) @ [char_of (48 + n mod 10)]"
  by (subst dec.simps) simp

lemma is_digit_char_of: "d < 10 \<Longrightarrow> is_digit (char_of (48 + d :: nat))"
  by (simp add: is_digit_def)


lemma dec_six:
  assumes "100000 \<le> n" "n \<le> 999999"
  shows "dec n = [char_of (48 + n div 100000), char_of (48 + n div 10000 mod 10),
                  char_of (48 + n div 1000 mod 10), char_of (48 + n div 100 mod 10),
                  char_of (48 + n div 10 mod 10), char_of (48 + n mod 10)]"
proof -
  have 1: "dec n = dec (n div 10) @ [char_of (48 + n mod 10)]"
    using assms by (intro dec_step) simp
  have 2: "dec (n div 10) = dec (n div 100) @ [char_of (48 + n div 10 mod 10)]"
    using assms by (subst dec_step) (simp_all add: div_mult2_eq [symmetric])
  have 3: "dec (n div 100) = dec (n div 1000) @ [char_of (48 + n div 100 mod 10)]"
    using assms by (subst dec_step) (simp_all add: div_mult2_eq [symmetric])
  have 4: "dec (n div 1000) = dec (n div 10000) @ [char_of (48 + n div 1000 mod 10)]"
    using assms by (subst dec_step) (simp_all add: div_mult2_eq [symmetric])
  have 5: "dec (n div 10000) = dec (n div 100000) @ [char_of (48 + n div 10000 mod 10)]"
    using assms by (subst dec_step) (simp_all add: div_mult2_eq [symmetric])
  have 6: "dec (n div 100000) = [char_of (48 + n div 100000)]"
    using assms by (intro dec_small) simp
  show ?thesis by (simp add: 1 2 3 4 5 6)
qed

text \<open>Rounding to a double: the exponent found, and bounds that are multiples of the unit.\<close>

lemma binade_eq:
  "e - int n \<le> e0 \<Longrightarrow> e0 \<le> e \<Longrightarrow> 2 powi e0 \<le> x \<Longrightarrow> x < 2 powi (e0 + 1) \<Longrightarrow> binade n e x = e0"
proof (induction n arbitrary: e)
  case 0
  then show ?case by simp
next
  case (Suc n)
  show ?case
  proof (cases "2 powi e \<le> x")
    case True
    then have "(2::real) powi e < 2 powi (e0 + 1)" using Suc.prems(4) by linarith
    then have "e < e0 + 1"
      using power_int_increasing [of "e0 + 1" e "2::real"] by (cases "e < e0 + 1") auto
    then show ?thesis using True Suc.prems(2) by simp
  next
    case False
    then have "e \<noteq> e0" using Suc.prems(3) by auto
    then have "binade n (e - 1) x = e0"
      using Suc.prems by (intro Suc.IH) auto
    then show ?thesis using False by simp
  qed
qed

lemma binade_low:
  "x < 2 powi (e - int n + 1) \<Longrightarrow> binade n e x = e - int n"
proof (induction n arbitrary: e)
  case 0
  then show ?case by simp
next
  case (Suc n)
  have "(2::real) powi (e - int (Suc n) + 1) \<le> 2 powi e"
    by (intro power_int_increasing) auto
  then have "\<not> 2 powi e \<le> x" using Suc.prems by linarith
  moreover have "binade n (e - 1) x = e - 1 - int n"
    using Suc.prems by (intro Suc.IH) (simp add: algebra_simps)
  ultimately show ?case by simp
qed

lemma exponent_eq:
  "- 1022 \<le> e0 \<Longrightarrow> e0 \<le> 1023 \<Longrightarrow> 2 powi e0 \<le> x \<Longrightarrow> x < 2 powi (e0 + 1) \<Longrightarrow> exponent x = e0"
  unfolding exponent_def by (rule binade_eq) auto

lemma exponent_low: "x < 2 powi (- 1021) \<Longrightarrow> exponent x = - 1022"
  unfolding exponent_def using binade_low [of x 1023 2045] by simp


lemma binade_bounds:
  "e - int n \<le> binade n e x \<and> binade n e x \<le> e
   \<and> (e - int n < binade n e x \<longrightarrow> 2 powi (binade n e x) \<le> x)
   \<and> (x < 2 powi (e + 1) \<longrightarrow> x < 2 powi (binade n e x + 1))"
proof (induction n arbitrary: e)
  case 0
  then show ?case by simp
next
  case (Suc n)
  show ?case
  proof (cases "2 powi e \<le> x")
    case True
    then show ?thesis by simp
  next
    case False
    then have "x < 2 powi (e - 1 + 1)" by simp
    then show ?thesis using False Suc.IH [of "e - 1"] by auto
  qed
qed

lemma exponent_range: "- 1022 \<le> exponent x" "exponent x \<le> 1023"
  using binade_bounds [of 1023 2045 x] by (simp_all add: exponent_def)

lemma exponent_upper: "x < 2 powi 1024 \<Longrightarrow> x < 2 powi (exponent x + 1)"
  using binade_bounds [of 1023 2045 x] by (simp add: exponent_def)

lemma exponent_lower: "- 1022 < exponent x \<Longrightarrow> 2 powi (exponent x) \<le> x"
  using binade_bounds [of 1023 2045 x] by (simp add: exponent_def)

lemma rne_le: "y \<le> of_int n \<Longrightarrow> rne y \<le> n"
  unfolding rne_def Let_def by (auto; linarith)

lemma rne_ge: "of_int n \<le> y \<Longrightarrow> n \<le> rne y"
  unfolding rne_def Let_def by (auto; linarith)

lemma rne_below_half: "y < of_int n - 1/2 \<Longrightarrow> rne y \<le> n - 1"
  unfolding rne_def Let_def by (auto; linarith)

lemma rne_of_int [simp]: "rne (of_int n) = n"
  unfolding rne_def Let_def by simp

lemma ulp_pos: "0 < ulp x"
  by (simp add: ulp_def)

lemma fl_nonneg: "0 \<le> x \<Longrightarrow> 0 \<le> fl x"
proof -
  assume x: "0 \<le> x"
  have "of_int 0 \<le> x / ulp x" using x ulp_pos [of x] by simp
  then have "0 \<le> rne (x / ulp x)" by (rule rne_ge)
  then show ?thesis using x ulp_pos [of x] by (simp add: fl_def)
qed

lemma fl_le_multiple:
  assumes "0 \<le> x" "x \<le> of_int m * ulp x"
  shows "fl x \<le> of_int m * ulp x"
proof -
  have "x / ulp x \<le> of_int m" using assms ulp_pos [of x] by (simp add: field_simps)
  then have "rne (x / ulp x) \<le> m" by (rule rne_le)
  then have "of_int (rne (x / ulp x)) * ulp x \<le> of_int m * ulp x"
    using ulp_pos [of x] by simp
  then show ?thesis using assms(1) by (simp add: fl_def)
qed

lemma fl_ge_multiple:
  assumes "0 \<le> x" "of_int m * ulp x \<le> x"
  shows "of_int m * ulp x \<le> fl x"
proof -
  have "of_int m \<le> x / ulp x" using assms ulp_pos [of x] by (simp add: field_simps)
  then have "m \<le> rne (x / ulp x)" by (rule rne_ge)
  then have "of_int m * ulp x \<le> of_int (rne (x / ulp x)) * ulp x"
    using ulp_pos [of x] by simp
  then show ?thesis using assms(1) by (simp add: fl_def)
qed

lemma fl_le_pow2:
  assumes "0 \<le> x" "x < 2 powi k" "k \<le> 1024" "- 1022 < k"
  shows "fl x \<le> 2 powi k"
proof -
  have "(2::real) powi k \<le> 2 powi 1024" using assms(3) by (intro power_int_increasing) auto
  then have up: "x < 2 powi (exponent x + 1)" using assms(2) by (intro exponent_upper) linarith
  have e: "exponent x < k"
  proof (cases "- 1022 < exponent x")
    case True
    then have "2 powi (exponent x) \<le> x" by (rule exponent_lower)
    then have "(2::real) powi (exponent x) < 2 powi k" using assms(2) by linarith
    then show ?thesis
      using power_int_increasing [of k "exponent x" "2::real"] by (cases "exponent x < k") auto
  next
    case False
    then show ?thesis using assms(4) exponent_range(1) [of x] by linarith
  qed
  define j where "j = k - (exponent x - 52)"
  have j: "0 \<le> j" using e by (simp add: j_def)
  have "(2::real) powi k = 2 powi j * 2 powi (exponent x - 52)"
    by (simp add: j_def flip: power_int_add)
  also have "(2::real) powi j = of_int (2 ^ nat j)" using j by (simp add: power_int_def)
  finally have k: "(2::real) powi k = of_int (2 ^ nat j) * ulp x" by (simp add: ulp_def)
  show ?thesis
    unfolding k by (rule fl_le_multiple) (use assms(1,2) k in simp_all)
qed

lemma pow2_less_exp: "(2::real) powi a \<le> x \<Longrightarrow> x < 2 powi b \<Longrightarrow> a < b"
proof (rule ccontr)
  assume 1: "2 powi a \<le> x" "x < 2 powi b" and "\<not> a < b"
  then have "(2::real) powi b \<le> 2 powi a" by (intro power_int_increasing) auto
  then show False using 1 by linarith
qed

lemma fl_eval:
  assumes "0 \<le> x" "- 1022 \<le> e" "e \<le> 1023" "2 powi e \<le> x" "x < 2 powi (e + 1)"
  shows "fl x = of_int (rne (x / 2 powi (e - 52))) * 2 powi (e - 52)"
  using assms(1) exponent_eq [OF assms(2-5)] by (simp add: fl_def ulp_def)

text \<open>
  The largest product is below \<open>900000\<close> by more than half a unit, so it rounds to at most
  the double below \<open>900000\<close>; the sum with \<open>100000\<close> is then at most the double below
  \<open>1000000\<close>, which is in the same binade, and rounds to at most that.
\<close>

lemma product_rounds_below:
  assumes "0 \<le> r" "r \<le> 1 - 1 / 2 ^ 53"
  shows "0 \<le> fl (r * 900000) \<and> fl (r * 900000) \<le> 900000 - 1 / 2 ^ 33"
proof -
  define p where "p = r * 900000"
  have p: "0 \<le> p" "p \<le> 900000 - 900000 / 2 ^ 53" using assms by (simp_all add: p_def)
  have lo: "0 \<le> fl p" using p(1) by (rule fl_nonneg)
  have "fl p \<le> 900000 - 1 / 2 ^ 33"
  proof (cases "p < 2 powi 19")
    case True
    have "fl p \<le> 2 powi 19" by (rule fl_le_pow2) (use p True in simp_all)
    then show ?thesis by simp
  next
    case False
    have e: "exponent p = 19" by (rule exponent_eq) (use False p in simp_all)
    have u: "ulp p = 1 / 2 ^ 33" by (simp add: ulp_def e)
    have "p / ulp p < of_int (900000 * 2 ^ 33) - 1/2" using p(2) by (simp add: u)
    then have "rne (p / ulp p) \<le> 900000 * 2 ^ 33 - 1" by (rule rne_below_half)
    then have "(of_int (rne (p / ulp p)) :: real) \<le> of_int (900000 * 2 ^ 33 - 1)"
      by (simp only: of_int_le_iff)
    then have "of_int (rne (p / ulp p)) \<le> (900000 * 2 ^ 33 - 1 :: real)"
      by simp
    then have "of_int (rne (p / ulp p)) * ulp p \<le> (900000 * 2 ^ 33 - 1) * ulp p"
      using ulp_pos [of p] by simp
    then show ?thesis using p(1) by (simp add: fl_def u)
  qed
  then show ?thesis using lo by (simp add: p_def)
qed

lemma fl_between:
  assumes "0 \<le> s" "ulp s = 1 / 2 ^ j" "of_int a / 2 ^ j \<le> s" "s \<le> of_int b / 2 ^ j"
  shows "of_int a / 2 ^ j \<le> fl s \<and> fl s \<le> of_int b / 2 ^ j"
proof -
  have "of_int a * ulp s \<le> fl s"
    by (rule fl_ge_multiple) (use assms in simp_all)
  moreover have "fl s \<le> of_int b * ulp s"
    by (rule fl_le_multiple) (use assms in simp_all)
  ultimately show ?thesis by (simp add: assms(2))
qed

lemma sum_rounds_below:
  assumes "0 \<le> y" "y \<le> 900000 - 1 / 2 ^ 33"
  shows "100000 \<le> fl (100000 + y) \<and> fl (100000 + y) < 1000000"
proof -
  define s where "s = 100000 + y"
  have s: "100000 \<le> s" "s \<le> 1000000 - 1 / 2 ^ 33" using assms by (simp_all add: s_def)
  have s0: "0 \<le> s" using s(1) by simp
  define e where "e = exponent s"
  have "s < 2 powi 1024" using s(2) by simp
  then have up: "s < 2 powi (e + 1)" unfolding e_def by (rule exponent_upper)
  have "2 powi 16 \<le> s" using s(1) by simp
  then have "16 < e + 1" using up by (rule pow2_less_exp)
  then have e16: "16 \<le> e" by simp
  then have "2 powi e \<le> s" unfolding e_def by (intro exponent_lower) simp
  then have "e < 20" using s(2) by (intro pow2_less_exp [of e s 20]) simp_all
  then have e19: "e \<le> 19" by simp
  have u: "ulp s = 2 powi (e - 52)" by (simp add: ulp_def e_def)
  consider "e = 16" | "e = 17" | "e = 18" | "e = 19" using e16 e19 by linarith
  then have "100000 \<le> fl s \<and> fl s \<le> 1000000 - 1 / 2 ^ 33"
  proof cases
    case 1
    have "ulp s = 1 / 2 ^ 36" by (simp add: u 1)
    then show ?thesis
      using fl_between [of s 36 "100000 * 2 ^ 36" "1000000 * 2 ^ 36 - 2 ^ 3"] s s0 by simp
  next
    case 2
    have "ulp s = 1 / 2 ^ 35" by (simp add: u 2)
    then show ?thesis
      using fl_between [of s 35 "100000 * 2 ^ 35" "1000000 * 2 ^ 35 - 2 ^ 2"] s s0 by simp
  next
    case 3
    have "ulp s = 1 / 2 ^ 34" by (simp add: u 3)
    then show ?thesis
      using fl_between [of s 34 "100000 * 2 ^ 34" "1000000 * 2 ^ 34 - 2"] s s0 by simp
  next
    case 4
    have "ulp s = 1 / 2 ^ 33" by (simp add: u 4)
    then show ?thesis
      using fl_between [of s 33 "100000 * 2 ^ 33" "1000000 * 2 ^ 33 - 1"] s s0 by simp
  qed
  then show ?thesis by (simp add: s_def)
qed

lemma access_code_range:
  assumes "0 \<le> r" "r \<le> 1 - 1 / 2 ^ 53"
  shows "100000 \<le> \<lfloor>fl (100000 + fl (r * 900000))\<rfloor> \<and> \<lfloor>fl (100000 + fl (r * 900000))\<rfloor> \<le> 999999"
proof -
  have a: "0 \<le> fl (r * 900000) \<and> fl (r * 900000) \<le> 900000 - 1 / 2 ^ 33"
    using assms by (rule product_rounds_below)
  have b: "100000 \<le> fl (100000 + fl (r * 900000)) \<and> fl (100000 + fl (r * 900000)) < 1000000"
    using a by (intro sum_rounds_below) simp_all
  have "100000 \<le> \<lfloor>fl (100000 + fl (r * 900000))\<rfloor>" using b by linarith
  moreover have "\<lfloor>fl (100000 + fl (r * 900000))\<rfloor> < 1000000" using b by linarith
  ultimately show ?thesis by simp
qed

lemma double_below_one:
  assumes "is_double r" "0 \<le> r" "r < 1"
  shows "r \<le> 1 - 1 / 2 ^ 53"
proof -
  define e where "e = exponent r"
  have "r < 2 powi 1024" using assms(3) by (simp add: power_int_def) 
  then have up: "r < 2 powi (e + 1)" unfolding e_def by (rule exponent_upper)
  have e0: "e \<le> - 1"
  proof (cases "- 1022 < e")
    case True
    then have "2 powi e \<le> r" unfolding e_def by (rule exponent_lower)
    then have "e < 0" using assms(3) by (intro pow2_less_exp [of e r 0]) simp_all
    then show ?thesis by simp
  next
    case False
    then show ?thesis by simp
  qed
  show ?thesis
  proof (cases "e = - 1")
    case True
    have u: "ulp r = 1 / 2 ^ 53" by (simp add: ulp_def e_def [symmetric] True)
    define k where "k = rne (r / ulp r)"
    have r: "r = of_int k / 2 ^ 53"
      using assms(1,2) by (simp add: is_double_def fl_def k_def u)
    then have "of_int k < (2 ^ 53 :: real)" using assms(3) by (simp add: field_simps)
    then have "(of_int k :: real) < of_int (2 ^ 53)" by simp
    then have "k < 2 ^ 53" by (simp only: of_int_less_iff)
    then have "k \<le> 2 ^ 53 - 1" by simp
    then have "(of_int k :: real) \<le> of_int (2 ^ 53 - 1)" by (simp only: of_int_le_iff)
    then have "of_int k \<le> (2 ^ 53 - 1 :: real)" by simp
    then show ?thesis unfolding r by (simp add: field_simps)
  next
    case False
    then have "e + 1 \<le> - 1" using e0 by simp
    then have "(2::real) powi (e + 1) \<le> 2 powi (- 1)" by (intro power_int_increasing) auto
    then have "r < 1 / 2" using up by simp
    then show ?thesis by simp
  qed
qed

lemma char_of_digit_neq_0: "0 < d \<Longrightarrow> d < 10 \<Longrightarrow> char_of (48 + d :: nat) \<noteq> CHR ''0''"
proof
  assume d: "0 < d" "d < 10" and e: "char_of (48 + d :: nat) = CHR ''0''"
  have "(of_char (char_of (48 + d :: nat)) :: nat) = 48 + d" using d by simp
  then show False using d by (simp add: e)
qed

lemma is_access_code_dec:
  assumes "100000 \<le> n" "n \<le> 999999"
  shows "is_access_code (dec n)"
proof -
  have "n div 100000 < 10" "0 < n div 100000" using assms by simp_all
  then show ?thesis
    unfolding is_access_code_def dec_six [OF assms]
    by (simp add: is_digit_char_of char_of_digit_neq_0)
qed

lemma generateAccessCode_dec:
  assumes "is_double r" "0 \<le> r" "r < 1"
  shows "\<exists>n. 100000 \<le> n \<and> n \<le> 999999 \<and> generateAccessCode r = dec n"
proof -
  define k where "k = \<lfloor>fl (100000 + fl (r * 900000))\<rfloor>"
  have "r \<le> 1 - 1 / 2 ^ 53" using assms by (rule double_below_one)
  then have k: "100000 \<le> k" "k \<le> 999999"
    using access_code_range [OF assms(2)] by (simp_all add: k_def)
  have "generateAccessCode r = dec (nat k)"
    using k unfolding generateAccessCode_def Number_toString_def k_def [symmetric] by simp
  moreover have "100000 \<le> nat k" "nat k \<le> 999999" using k by simp_all
  ultimately show ?thesis by blast
qed

lemma is_access_code_nonempty: "is_access_code c \<Longrightarrow> c \<noteq> []"
  by (auto simp: is_access_code_def)

lemma dec_550000: "dec 550000 = ''550000''"
  by (simp add: dec.simps char_of_eq_iff)

lemma dec_100030: "dec 100030 = ''100030''"
  by (simp add: dec.simps char_of_eq_iff)

lemma half_is_double: "is_double (1 / 2)"
  unfolding is_double_def by (subst fl_eval [where e = "- 1"]) (simp_all add: rne_def)

lemma generateAccessCode_half: "generateAccessCode (1 / 2) = ''550000''"
proof -
  have 1: "fl (1 / 2 * 900000) = 450000"
    by (subst fl_eval [where e = 18]) (simp_all add: rne_def)
  have 2: "fl (100000 + 450000) = 550000"
    by (subst fl_eval [where e = 19]) (simp_all add: rne_def)
  show ?thesis
    by (simp only: generateAccessCode_def 1 2) (simp add: Number_toString_def dec_550000)
qed

text \<open>
  A random number at which the rounding decides the code: the product is a double a
  little below 30, and the sum rounds up to 100030, where exact arithmetic gives 100029.
\<close>

lemma generateAccessCode_rounds_up:
  "generateAccessCode (150119987579 / 2 ^ 52) = ''100030''
 \<and> \<lfloor>100000 + 150119987579 / 2 ^ 52 * (900000 :: real)\<rfloor> = 100029"
proof -
  have 1: "fl (150119987579 / 2 ^ 52 * 900000) = 8444249301318750 / 2 ^ 48"
    by (subst fl_eval [where e = 4]) (simp_all add: rne_def)
  have 2: "fl (100000 + 8444249301318750 / 2 ^ 48) = 100030"
    by (subst fl_eval [where e = 16]) (simp_all add: rne_def)
  have 3: "\<lfloor>100000 + 150119987579 / 2 ^ 52 * (900000 :: real)\<rfloor> = 100029"
    by (simp add: floor_eq_iff)
  show ?thesis
    using 3 by (simp only: generateAccessCode_def 1 2) (simp add: Number_toString_def dec_100030)
qed

text \<open>
  C7, as amended. \<^verbatim>\<open>keepAlive\<close> generates an access code and persists it exactly when the
  store holds no truthy \<^verbatim>\<open>accessCode\<close>: the key is absent or its value is the empty string;
  otherwise it uses the stored value and leaves the store alone. The generated code is,
  for every double \<open>0 \<le> r < 1\<close> that \<^verbatim>\<open>Math.random()\<close> can return and with both operations
  rounded as doubles, six decimal digits between 100000 and 999999. After any
  invocation the store holds the code that was used, and a further invocation returns
  that code and leaves the store as it is.
\<close>

theorem keepAlive_identifier:
  assumes "is_double r" "0 \<le> r" "r < 1"
  shows "(\<exists>n. 100000 \<le> n \<and> n \<le> 999999 \<and> generateAccessCode r = dec n)
       \<and> is_access_code (generateAccessCode r)
       \<and> (case keepAlive r userAgent date (storage, st) of
            (code, storage', st') \<Rightarrow>
              (if stored_truthy storage then storage' = storage \<and> storage = Some code
               else code = generateAccessCode r \<and> storage' = Some code)
            \<and> stored_truthy storage'
            \<and> fst (keepAlive r' userAgent' date' (storage', st')) = code
            \<and> fst (snd (keepAlive r' userAgent' date' (storage', st'))) = storage')"
proof -
  have a: "\<exists>n. 100000 \<le> n \<and> n \<le> 999999 \<and> generateAccessCode r = dec n"
    using generateAccessCode_dec [OF assms] .
  have b: "is_access_code (generateAccessCode r)"
    using a is_access_code_dec by auto
  have c: "generateAccessCode r \<noteq> []"
    using b by (rule is_access_code_nonempty)
  show ?thesis
  proof (cases "stored_truthy storage")
    case True
    then obtain c0 where "storage = Some c0" "c0 \<noteq> []"
      by (cases storage) (auto simp: stored_truthy_def)
    then show ?thesis using a b
      by (simp add: keepAlive_def stored_truthy_def Let_def)
  next
    case False
    then have "storage = None \<or> storage = Some []"
      by (cases storage) (auto simp: stored_truthy_def)
    then show ?thesis using a b c
      by (auto simp: keepAlive_def stored_truthy_def Let_def)
  qed
qed

theorem keepAlive_identifier_witness:
  "is_double (1 / 2) \<and> (0::real) \<le> 1 / 2 \<and> (1 / 2 :: real) < 1
 \<and> generateAccessCode (1 / 2) = ''550000''
 \<and> is_access_code ''550000''
 \<and> fst (keepAlive (1 / 2) ''UA'' ''2026-11-02T14:37:00.000Z'' (None, initial_state)) = ''550000''
 \<and> fst (snd (keepAlive (1 / 2) ''UA'' ''2026-11-02T14:37:00.000Z'' (None, initial_state))) = Some ''550000''
 \<and> fst (keepAlive (1 / 2) ''UA'' ''2026-11-02T14:37:00.000Z'' (Some ''123456'', initial_state)) = ''123456''"
proof -
  have h: "is_double (1 / 2)" "(0::real) \<le> 1 / 2" "(1 / 2 :: real) < 1"
    using half_is_double by simp_all
  show ?thesis
    using h generateAccessCode_half
      keepAlive_identifier [OF h, where userAgent = "''UA''" and date = "''2026-11-02T14:37:00.000Z''"
        and st = initial_state and storage = None]
      keepAlive_identifier [OF h, where userAgent = "''UA''" and date = "''2026-11-02T14:37:00.000Z''"
        and st = initial_state and storage = "Some ''123456''"]
    by (simp add: split_beta stored_truthy_def)
qed

text \<open>
  C7 as stated fails: a store that has the \<^verbatim>\<open>accessCode\<close> key, holding the empty string,
  is given a fresh code all the same, because \<^verbatim>\<open>storage.accessCode || generateAccessCode()\<close>
  and \<^verbatim>\<open>!storage.accessCode\<close> test the value for truth, not the key for presence.
\<close>

theorem empty_code_is_replaced:
  "fst (keepAlive (1 / 2) ''UA'' ''2026-11-02T14:37:00.000Z'' (Some [], initial_state)) = ''550000''
 \<and> fst (snd (keepAlive (1 / 2) ''UA'' ''2026-11-02T14:37:00.000Z'' (Some [], initial_state))) =
     Some ''550000''"
  by (simp add: keepAlive_def stored_truthy_def Let_def generateAccessCode_half)

subsection \<open>C6: navigation commands and the load of the page\<close>

lemma fold_min_in: "fold min r (t::nat) \<in> set (t # r)"
proof (induction r arbitrary: t)
  case Nil
  then show ?case by simp
next
  case (Cons a r)
  have 1: "fold min r (min a t) \<in> set (min a t # r)" by (rule Cons.IH)
  have 2: "min a t = a \<or> min a t = t" by (auto simp: min_def)
  show ?case using 1 2 by auto
qed

lemma earliest_in: "earliest ts = Some t \<Longrightarrow> t \<in> set ts"
  using fold_min_in by (auto simp: earliest_def split: list.splits)

lemma load_complete_event:
  assumes "load_complete b tabId from deadline = Some t"
  shows "(t, tabId, ''complete'') \<in> set (tab_updates b) \<and> from \<le> t \<and> t < deadline"
proof -
  have "t \<in> set (map fst (filter (\<lambda>(t, changedTabId, status).
        changedTabId = tabId \<and> status = ''complete'' \<and> from \<le> t \<and> t < deadline) (tab_updates b)))"
    using assms unfolding load_complete_def by (rule earliest_in)
  then show ?thesis by auto
qed

lemma waitForTabLoad_waits:
  "waitForTabLoad b tabId now = now + 30000
 \<or> ((waitForTabLoad b tabId now, tabId, ''complete'') \<in> set (tab_updates b)
    \<and> now \<le> waitForTabLoad b tabId now \<and> waitForTabLoad b tabId now < now + 30000)"
  using load_complete_event [of b tabId now "now + 30000"]
  by (auto simp: waitForTabLoad_def split: option.splits)

text \<open>
  C6 says that every command that triggers navigation (goto, reload, back, forward)
  resolves only after the tab reaches load-complete or after 30 seconds. \<^verbatim>\<open>navigateToUrl\<close>
  and \<^verbatim>\<open>reloadPage\<close> do call \<^verbatim>\<open>waitForTabLoad\<close> (\<open>waitForTabLoad_waits\<close> above), but
  \<^verbatim>\<open>navigateBack\<close> and \<^verbatim>\<open>navigateForward\<close> only run \<^verbatim>\<open>window.history.back()\<close> or
  \<^verbatim>\<open>forward()\<close> in the page and resolve when that script has returned. With the active tab
  completing its load at 2000 ms, goto and reload started at 0 resolve at 2000; back and
  forward resolve at 0.
\<close>

theorem back_and_forward_do_not_wait:
  "load_complete slow_page 1 0 30000 = Some 2000
 \<and> executeCommand slow_page 0 ''goto'' [(''url'', VStr ''https://example.org/'')] =
     Some (Resolved (VObj [(''success'', VBool True), (''url'', VStr ''https://example.org/'')]), 2000)
 \<and> executeCommand slow_page 0 ''reload'' [] = Some (Resolved (VObj [(''success'', VBool True)]), 2000)
 \<and> executeCommand slow_page 0 ''back'' [] = Some (Resolved (VObj [(''success'', VBool True)]), 0)
 \<and> executeCommand slow_page 0 ''forward'' [] = Some (Resolved (VObj [(''success'', VBool True)]), 0)"
  by (simp add: executeCommand_def is_command_simps param_def navigateToUrl_def reloadPage_def
      navigateBack_def navigateForward_def waitForTabLoad_def load_complete_def earliest_def
      page_defs script_defs)

subsection \<open>C9: the evaluate command\<close>

lemma JSON_parse_empty_array: "JSON_parse ''[]'' = Inr (JArr [])"
  by code_simp

lemma empty_array_text: "message_text (VArr []) = ''[]''"
  by (simp add: message_text_def JSON_stringify_def)

text \<open>
  Argument text that is not JSON is not fatal: the script is built with the empty
  argument list \<^verbatim>\<open>[]\<close>.
\<close>

lemma evaluate_arguments_default:
  "JSON_parse a = Inl SyntaxError \<Longrightarrow>
   evaluateFunction b now f (Some a) =
     Some (check_result (executeScriptInActiveTab b now (evaluate_script (page_call b now f ''[]''))))"
  by (simp add: evaluateFunction_def parse_arguments_def JSON_parse_empty_array empty_array_text)

text \<open>
  The check after the execution does throw when the value it is given is an object with
  a truthy \<^verbatim>\<open>error\<close> property.
\<close>

lemma check_result_error:
  "map_of kvs ''error'' = Some (JStr m) \<Longrightarrow> m \<noteq> [] \<Longrightarrow>
   check_result (Inr (Some (JObj kvs)), t) = (Rejected (JsError m), t)"
  by (simp add: check_result_def error_field_def)

text \<open>
  But the object of the \<^verbatim>\<open>catch\<close> clause never reaches that check: whatever the function
  does in the page, returning or throwing, a host that reports the script as it behaves
  hands back \<^verbatim>\<open>undefined\<close>, and \<^verbatim>\<open>evaluateFunction\<close> resolves with it.
\<close>

lemma evaluate_script_value:
  "c = Gives v \<or> c = Raises m \<Longrightarrow> evaluate_script c = Returns None"
  by (auto simp: evaluate_script_def expression_statement_def)

lemma evaluateFunction_resolves:
  assumes "faithful b" "active_tabs b \<noteq> []" "parse_arguments argsStr = Some args"
    and "page_call b now f (message_text (from_json args)) = Gives v
       \<or> page_call b now f (message_text (from_json args)) = Raises m"
  shows "evaluateFunction b now f argsStr = Some (Resolved VUndefined, now)"
proof -
  have "reports b now (Returns None)"
    using assms(1) by (simp add: faithful_def)
  then have "host b now (Returns None) = (now, None, None)"
    by (simp add: reports_def)
  then show ?thesis
    using assms(2,3) evaluate_script_value [OF assms(4)]
    by (simp add: evaluateFunction_def executeScriptInActiveTab_def callback_def check_result_def)
qed

text \<open>
  C9 at a function that throws in the page. The function
  \<^verbatim>\<open>function() { return missing.length; }\<close> throws; the function of the script catches the
  exception and returns \<^verbatim>\<open>{ error: 'missing is not defined' }\<close>; the script drops that
  value, \<^verbatim>\<open>evaluateFunction\<close> resolves with \<^verbatim>\<open>undefined\<close> (also when the argument text is
  not JSON), and the result sent for the command has \<^verbatim>\<open>success\<close> true and no error. Had the
  object reached the check, it would have been thrown.
\<close>

theorem evaluate_exception_is_a_success:
  "page_call throwing_page 0 ''function() { return missing.length; }'' ''[]'' =
     Raises ''missing is not defined''
 \<and> guarded_call (Raises ''missing is not defined'') =
     Some (JObj [(''error'', JStr ''missing is not defined'')])
 \<and> evaluate_script (Raises ''missing is not defined'') = Returns None
 \<and> evaluateFunction throwing_page 0 ''function() { return missing.length; }'' None =
     Some (Resolved VUndefined, 0)
 \<and> evaluateFunction throwing_page 0 ''function() { return missing.length; }'' (Some ''not json'') =
     Some (Resolved VUndefined, 0)
 \<and> processCommand throwing_page 0
      \<lparr>cmd_accessCode = ''123456'', cmd_commandId = ''abc'', cmd_command = ''evaluate'',
       cmd_params = [(''function'', VStr ''function() { return missing.length; }'')],
       cmd_timestamp = 0\<rparr> initial_state =
    Some (sendWebSocketMessage
           (VObj [(''type'', VStr ''COMMAND_RESULT''),
                  (''data'',
                   VObj [(''commandId'', VStr ''abc''),
                         (''accessCode'', VStr ''123456''),
                         (''success'', VBool True),
                         (''result'', VUndefined),
                         (''error'', VUndefined),
                         (''timestamp'', VNum 0)])]) initial_state)
 \<and> check_result (Inr (Some (JObj [(''error'', JStr ''missing is not defined'')])), 0) =
     (Rejected (JsError ''missing is not defined''), 0)"
proof -
  have p: "JSON_parse ''not json'' = Inl SyntaxError"
    by code_simp
  have 1: "page_call throwing_page 0 ''function() { return missing.length; }'' ''[]'' =
     Raises ''missing is not defined''"
    by (simp add: page_defs)
  have 2: "guarded_call (Raises ''missing is not defined'') =
     Some (JObj [(''error'', JStr ''missing is not defined'')])"
    by (simp add: guarded_call_def)
  have 3: "evaluate_script (Raises ''missing is not defined'') = Returns None"
    by (simp add: evaluate_script_def expression_statement_def)
  have 4: "evaluateFunction throwing_page 0 ''function() { return missing.length; }'' None =
     Some (Resolved VUndefined, 0)"
    using 1 3
    by (simp add: evaluateFunction_def parse_arguments_def JSON_parse_empty_array empty_array_text
        executeScriptInActiveTab_def callback_def check_result_def)
      (simp add: page_defs)
  have 5: "evaluateFunction throwing_page 0 ''function() { return missing.length; }'' (Some ''not json'') =
     Some (Resolved VUndefined, 0)"
    using 1 3 p
    by (simp add: evaluateFunction_def parse_arguments_def JSON_parse_empty_array empty_array_text
        executeScriptInActiveTab_def callback_def check_result_def)
      (simp add: page_defs)
  have 6: "executeCommand throwing_page 0 ''evaluate''
             [(''function'', VStr ''function() { return missing.length; }'')] =
           Some (Resolved VUndefined, 0)"
    using 4
    by (simp add: executeCommand_def is_command_simps function_text_def arguments_text_def
        param_def)
  have 7: "check_result (Inr (Some (JObj [(''error'', JStr ''missing is not defined'')])), 0) =
     (Rejected (JsError ''missing is not defined''), 0)"
    by (simp add: check_result_def error_field_def)
  show ?thesis
    using 1 2 3 4 5 6 7
    by (simp add: processCommand_def answer_def sendCommandResult_def resultPacket_def enum_member_def
        PacketType_def)
qed

subsection \<open>C5: selectors that match nothing\<close>
























subsection \<open>C4: one result per command\<close>

lemma sendWebSocketMessage_open:
  "socket_is_open st \<Longrightarrow>
   \<exists>k. socket st = Some k \<and> sendWebSocketMessage pkt st = (st\<lparr>sent := sent st @ [(k, message_text pkt)]\<rparr>, Sent)"
  by (auto simp: sendWebSocketMessage_def socket_is_open_def split: option.splits)

lemma sendWebSocketMessage_deferred:
  assumes "\<not> socket_is_open st"
  shows "case sendWebSocketMessage pkt st of
           (st', r) \<Rightarrow>
             r = Deferred (length (sockets st)) \<and> sent st' = sent st
           \<and> sockets st' = sockets st @ [\<lparr>ws_handlers = Temporary pkt Pending, ws_readyState = CONNECTING\<rparr>]
           \<and> map_option sent (step st' (Socket_open (length (sockets st)))) =
               Some (sent st @ [(length (sockets st), message_text pkt)])"
  using assms
  by (simp add: sendWebSocketMessage_def new_WebSocket_def setTimer_def readyState_of_def
      set_readyState_def settle_def ws_close_def)

lemma frames_on_simps [simp]:
  "frames_on k (st\<lparr>sockets := ss\<rparr>) = frames_on k st"
  "frames_on k (st\<lparr>socket := so\<rparr>) = frames_on k st"
  "frames_on k (st\<lparr>timers := ts\<rparr>) = frames_on k st"
  "frames_on k (st\<lparr>next_handle := n\<rparr>) = frames_on k st"
  "frames_on k (st\<lparr>reconnectTimeout := x\<rparr>) = frames_on k st"
  "frames_on k (st\<lparr>pingInterval := x\<rparr>) = frames_on k st"
  "frames_on k (st\<lparr>sent := sent st0 @ [(m, t)]\<rparr>) = frames_on k st0 @ (if m = k then [t] else [])"
  by (simp_all add: frames_on_def)

lemma well_formed_initial: "well_formed initial_state"
  by (simp add: well_formed_def initial_state_def)

lemma carries_clearTimer [simp]: "carries k d fs w (clearTimer h st) = carries k d fs w st"
  by (simp add: carries_def well_formed_def clearTimer_def)

lemma carries_timers [simp]: "carries k d fs w (st\<lparr>timers := ts\<rparr>) = carries k d fs w st"
  by (simp add: carries_def well_formed_def)

lemma carries_next_handle [simp]: "carries k d fs w (st\<lparr>next_handle := n\<rparr>) = carries k d fs w st"
  by (simp add: carries_def well_formed_def)

lemma carries_reconnectTimeout [simp]: "carries k d fs w (st\<lparr>reconnectTimeout := x\<rparr>) = carries k d fs w st"
  by (simp add: carries_def well_formed_def)

lemma carries_pingInterval [simp]: "carries k d fs w (st\<lparr>pingInterval := x\<rparr>) = carries k d fs w st"
  by (simp add: carries_def well_formed_def)

lemma carries_clear_reconnect [simp]: "carries k d fs w (clear_reconnect st) = carries k d fs w st"
  by (simp add: clear_reconnect_def split: option.splits)

lemma carries_clear_ping [simp]: "carries k d fs w (clear_ping st) = carries k d fs w st"
  by (simp add: clear_ping_def split: option.splits)

lemma carries_setTimer [simp]: "carries k d fs w (snd (setTimer delay cb st)) = carries k d fs w st"
  by (simp add: setTimer_def)

lemma carries_new_persistent:
  "carries k d fs w st \<Longrightarrow> carries k d fs w ((snd (new_WebSocket (Persistent c) st))\<lparr>socket := Some (length (sockets st))\<rparr>)"
  by (auto simp: carries_def well_formed_def new_WebSocket_def nth_append less_Suc_eq)

lemma carries_new_temporary:
  "carries k d fs w st \<Longrightarrow> carries k d fs w (snd (new_WebSocket (Temporary d' p) st))"
  by (auto simp: carries_def well_formed_def new_WebSocket_def nth_append less_Suc_eq
      split: option.splits)

lemma carries_set_readyState:
  "carries k d fs w st \<Longrightarrow> r \<noteq> CONNECTING \<Longrightarrow> carries k d fs w (set_readyState j r st)"
  by (auto simp: carries_def well_formed_def set_readyState_def nth_list_update
      split: option.splits)

lemma carries_ws_close: "carries k d fs w st \<Longrightarrow> carries k d fs w (ws_close j st)"
  by (simp add: ws_close_def carries_set_readyState split: option.splits readyState.splits)

lemma carries_socket_None: "carries k d fs w st \<Longrightarrow> carries k d fs w (st\<lparr>socket := None\<rparr>)"
  by (simp add: carries_def well_formed_def)

lemma carries_settle: "carries k d fs w st \<Longrightarrow> carries k d fs w (settle j p st)"
  by (auto simp: carries_def well_formed_def settle_def nth_list_update
      split: option.splits handlers.splits promise.splits)

lemma carries_frame_on_socket:
  "carries k d fs w st \<Longrightarrow> socket st = Some m \<Longrightarrow> carries k d fs w (st\<lparr>sent := sent st @ [(m, t)]\<rparr>)"
  by (auto simp: carries_def well_formed_def)

lemma carries_initializeWebSocket:
  "carries k d fs w st \<Longrightarrow> carries k d fs w (initializeWebSocket c st)"
  using carries_new_persistent [of k d fs w "clear_ping (clear_reconnect st)" c]
  by (simp add: initializeWebSocket_def split_beta Let_def new_WebSocket_def clear_ping_def
      clear_reconnect_def clearTimer_def split: option.splits)

lemma carries_closeWebSocket:
  "carries k d fs w st \<Longrightarrow> carries k d fs w (closeWebSocket st)"
  by (simp add: closeWebSocket_def Let_def carries_ws_close carries_socket_None split: option.splits)

lemma carries_sendWebSocketMessage:
  "carries k d fs w st \<Longrightarrow> carries k d fs w (fst (sendWebSocketMessage x st))"
  using carries_new_temporary [of k d fs w st x Pending]
  by (auto simp: sendWebSocketMessage_def split_beta Let_def carries_frame_on_socket setTimer_def
      split: option.splits if_splits)

lemma carries_ping: "carries k d fs w st \<Longrightarrow> carries k d fs w (ping st)"
  by (auto simp: ping_def carries_frame_on_socket split: option.splits if_splits)

lemma carries_onclose: "carries k d fs w st \<Longrightarrow> carries k d fs w (onclose c st)"
  by (simp add: onclose_def Let_def split_beta)

lemma carries_ws_send:
  "carries k d fs w st \<Longrightarrow> socket st = Some m \<Longrightarrow> ws_send m t st = Some st' \<Longrightarrow> carries k d fs w st'"
  by (auto simp: ws_send_def carries_frame_on_socket split: option.splits readyState.splits)

lemma carries_onopen: "carries k d fs w st \<Longrightarrow> carries k d fs w (onopen c st)"
  by (auto simp: onopen_def Let_def split_beta dest: carries_ws_send split: option.splits)

lemma carries_fire: "carries k d fs w st \<Longrightarrow> carries k d fs w (fire cb h st)"
  by (cases cb)
    (simp_all add: fire_def Let_def carries_initializeWebSocket carries_ping carries_settle carries_ws_close)

lemma carries_open_self:
  assumes "carries k d fs w st" "readyState_of st k = Some CONNECTING"
  shows "carries k d (fs @ [message_text d]) False
           (settle k Fulfilled (ws_close k ((set_readyState k OPEN st)
              \<lparr>sent := sent (set_readyState k OPEN st) @ [(k, message_text d)]\<rparr>)))"
proof -
  have c: "ws_readyState (sockets st ! k) = CONNECTING" "k < length (sockets st)"
    using assms(2) by (auto simp: readyState_of_def split: if_splits)
  have "carries k d (fs @ [message_text d]) False ((set_readyState k OPEN st)
              \<lparr>sent := sent (set_readyState k OPEN st) @ [(k, message_text d)]\<rparr>)"
    using assms(1) c
    by (auto simp: carries_def well_formed_def set_readyState_def nth_list_update)
  then show ?thesis by (intro carries_settle carries_ws_close)
qed

lemma carries_open_other:
  assumes "carries k d fs w st" "j \<noteq> k" "j < length (sockets st)"
  shows "carries k d fs w ((set_readyState j OPEN st)\<lparr>sent := sent (set_readyState j OPEN st) @ [(j, t)]\<rparr>)"
  using assms by (auto simp: carries_def well_formed_def set_readyState_def nth_list_update)

lemma carries_closed:
  "carries k d fs w st \<Longrightarrow> r \<noteq> CONNECTING \<Longrightarrow> carries k d fs False (set_readyState k r st)"
  by (auto simp: carries_def well_formed_def set_readyState_def nth_list_update)

lemma carries_weaken: "carries k d fs False st \<Longrightarrow> carries k d fs w st"
  by (simp add: carries_def)

text \<open>
  One step. The socket opening is the only event that sends on it, and it sends the text
  of the packet; it needs a socket that is connecting. Every other event leaves the
  frames of the socket as they are.
\<close>

lemma carries_step:
  assumes "carries k d fs w st" "step st e = Some st'"
  shows "if e = Socket_open k then w \<and> carries k d (fs @ [message_text d]) False st'
         else carries k d fs w st'"
proof (cases e)
  case (Call_initializeWebSocket c)
  then show ?thesis using assms by (auto simp: carries_initializeWebSocket)
next
  case Call_closeWebSocket
  then show ?thesis using assms by (auto simp: carries_closeWebSocket)
next
  case (Call_sendWebSocketMessage x)
  then show ?thesis using assms by (auto simp: carries_sendWebSocketMessage)
next
  case (Socket_open j)
  have con: "readyState_of st j = Some CONNECTING"
    using assms(2) Socket_open by (auto split: if_splits)
  then have j: "j < length (sockets st)" by (auto simp: readyState_of_def split: if_splits)
  show ?thesis
  proof (cases "ws_handlers (sockets st ! j)")
    case (Persistent c)
    then have "st' = onopen c (set_readyState j OPEN st)"
      using assms(2) Socket_open con by (simp add: Let_def)
    moreover have "j \<noteq> k" using Persistent assms(1) by (auto simp: carries_def)
    ultimately show ?thesis
      using assms(1) Socket_open by (simp add: carries_onopen carries_set_readyState)
  next
    case (Temporary x p)
    then have st': "st' = settle j Fulfilled (ws_close j ((set_readyState j OPEN st)
              \<lparr>sent := sent (set_readyState j OPEN st) @ [(j, message_text x)]\<rparr>))"
      using assms(2) Socket_open con by (simp add: Let_def)
    show ?thesis
    proof (cases "j = k")
      case True
      then have x: "x = d" using assms(1) Temporary by (auto simp: carries_def)
      have "ws_readyState (sockets st ! k) = CONNECTING"
        using con True by (auto simp: readyState_of_def split: if_splits)
      then have w using assms(1) by (auto simp: carries_def)
      then show ?thesis
        using carries_open_self [OF assms(1)] con True st' x Socket_open by simp
    next
      case False
      then show ?thesis
        unfolding st' using carries_open_other [OF assms(1) False j] Socket_open
        by (simp add: carries_settle carries_ws_close)
    qed
  qed
next
  case (Socket_error j)
  then show ?thesis using assms
    by (auto simp: Let_def carries_settle carries_onclose carries_set_readyState
        split: if_splits handlers.splits)
next
  case (Socket_close j)
  then show ?thesis using assms
    by (auto simp: Let_def carries_onclose carries_set_readyState split: if_splits handlers.splits)
next
  case (Timer_fire h)
  then show ?thesis using assms
    by (auto simp: carries_fire split: option.splits)
qed

text \<open>The events after which the socket is no longer connecting.\<close>

lemma carries_failure:
  assumes "carries k d fs w st" "step st e = Some st'"
    and "e = Socket_error k \<or> e = Socket_close k
       \<or> (\<exists>h delay. e = Timer_fire h \<and> map_of (timers st) h = Some (delay, SendTimeout k))"
  shows "carries k d fs False st'"
proof -
  have k: "k < length (sockets st)" "\<exists>p. ws_handlers (sockets st ! k) = Temporary d p"
    using assms(1) by (auto simp: carries_def)
  consider "e = Socket_error k" | "e = Socket_close k"
    | h delay where "e = Timer_fire h" "map_of (timers st) h = Some (delay, SendTimeout k)"
    using assms(3) by blast
  then show ?thesis
  proof cases
    case 1
    then show ?thesis using assms(1,2) k
      by (auto simp: Let_def carries_settle carries_closed split: if_splits)
  next
    case 2
    then show ?thesis using assms(1,2) k
      by (auto simp: Let_def carries_closed split: if_splits)
  next
    case 3
    have c: "carries k d fs w (clearTimer h st)" using assms(1) by simp
    have "carries k d fs False (fire (SendTimeout k) h st)"
    proof (cases "readyState_of (clearTimer h st) k = Some CLOSED")
      case True
      then have "ws_readyState (sockets st ! k) \<noteq> CONNECTING"
        by (auto simp: readyState_of_def clearTimer_def split: if_splits)
      then have "carries k d fs False st" using assms(1) by (auto simp: carries_def)
      then show ?thesis using True by (simp add: fire_def Let_def)
    next
      case False
      have "carries k d fs False (ws_close k (clearTimer h st))"
      proof (cases "ws_readyState (sockets st ! k) = CONNECTING \<or> ws_readyState (sockets st ! k) = OPEN")
        case True
        then have "ws_close k (clearTimer h st) = set_readyState k CLOSING (clearTimer h st)"
          using k(1) by (auto simp: ws_close_def readyState_of_def clearTimer_def)
        then show ?thesis using carries_closed [OF c, of CLOSING] by simp
      next
        case False
        then have "ws_close k (clearTimer h st) = clearTimer h st"
          using k(1) by (auto simp: ws_close_def readyState_of_def clearTimer_def
              split: readyState.splits)
        moreover have "carries k d fs False st" using False assms(1) by (auto simp: carries_def)
        ultimately show ?thesis by simp
      qed
      then show ?thesis using False by (simp add: fire_def Let_def carries_settle)
    qed
    then show ?thesis using 3 assms(2) by simp
  qed
qed

lemma carries_run_closed:
  "carries k d fs False st \<Longrightarrow> run st es = Some st' \<Longrightarrow>
   Socket_open k \<notin> set es \<and> carries k d fs False st'"
proof (induction es arbitrary: st)
  case Nil
  then show ?case by simp
next
  case (Cons e es)
  then obtain st1 where s: "step st e = Some st1" "run st1 es = Some st'"
    by (auto split: option.splits)
  have "e \<noteq> Socket_open k \<and> carries k d fs False st1"
    using carries_step [OF Cons.prems(1) s(1)] by (auto split: if_splits)
  then show ?case using Cons.IH [OF _ s(2)] by auto
qed

lemma carries_run:
  "carries k d fs w st \<Longrightarrow> run st es = Some st' \<Longrightarrow>
   frames_on k st' = fs @ (if Socket_open k \<in> set es then [message_text d] else [])
 \<and> (Socket_open k \<notin> set es \<longrightarrow> carries k d fs w st')"
proof (induction es arbitrary: st)
  case Nil
  then show ?case by (simp add: carries_def)
next
  case (Cons e es)
  then obtain st1 where s: "step st e = Some st1" "run st1 es = Some st'"
    by (auto split: option.splits)
  show ?case
  proof (cases "e = Socket_open k")
    case True
    then have c: "carries k d (fs @ [message_text d]) False st1"
      using carries_step [OF Cons.prems(1) s(1)] by simp
    have "Socket_open k \<notin> set es \<and> carries k d (fs @ [message_text d]) False st'"
      using carries_run_closed [OF c s(2)] .
    then show ?thesis using True by (simp add: carries_def)
  next
    case False
    then have "carries k d fs w st1"
      using carries_step [OF Cons.prems(1) s(1)] by simp
    then show ?thesis using Cons.IH [OF _ s(2)] False by auto
  qed
qed

lemma frames_on_fresh: "well_formed st \<Longrightarrow> frames_on (length (sockets st)) st = []"
  by (auto simp: well_formed_def frames_on_def filter_empty_conv)

lemma carries_deferred:
  assumes "well_formed st" "\<not> socket_is_open st"
  shows "carries (length (sockets st)) x [] True (fst (sendWebSocketMessage x st))"
  using assms frames_on_fresh [OF assms(1)]
  by (auto simp: sendWebSocketMessage_def new_WebSocket_def setTimer_def carries_def well_formed_def
      nth_append frames_on_def less_Suc_eq)

lemma well_formed_step:
  assumes "well_formed st" "step st e = Some st'"
  shows "well_formed st'"
proof -
  have wf_ct [simp]: "\<And>h s. well_formed (clearTimer h s) = well_formed s"
    by (simp add: well_formed_def clearTimer_def)
  have wf_upd [simp]:
    "\<And>s x. well_formed (s\<lparr>timers := x\<rparr>) = well_formed s"
    "\<And>s x. well_formed (s\<lparr>next_handle := x\<rparr>) = well_formed s"
    "\<And>s x. well_formed (s\<lparr>reconnectTimeout := x\<rparr>) = well_formed s"
    "\<And>s x. well_formed (s\<lparr>pingInterval := x\<rparr>) = well_formed s"
    by (simp_all add: well_formed_def)
  have wf_cr [simp]: "\<And>s. well_formed (clear_reconnect s) = well_formed s"
    by (simp add: clear_reconnect_def split: option.splits)
  have wf_cp [simp]: "\<And>s. well_formed (clear_ping s) = well_formed s"
    by (simp add: clear_ping_def split: option.splits)
  have wf_none: "\<And>s. well_formed s \<Longrightarrow> well_formed (s\<lparr>socket := None\<rparr>)"
    by (simp add: well_formed_def)
  have wf_rs: "\<And>s j r. well_formed s \<Longrightarrow> well_formed (set_readyState j r s)"
    by (auto simp: well_formed_def set_readyState_def nth_list_update)
  have wf_close: "\<And>s j. well_formed s \<Longrightarrow> well_formed (ws_close j s)"
    by (simp add: ws_close_def wf_rs split: option.splits readyState.splits)
  have wf_settle: "\<And>s j p. well_formed s \<Longrightarrow> well_formed (settle j p s)"
    by (auto simp: well_formed_def settle_def nth_list_update
        split: option.splits handlers.splits promise.splits)
  have wf_frame: "\<And>s m t. well_formed s \<Longrightarrow> m < length (sockets s) \<Longrightarrow>
      well_formed (s\<lparr>sent := sent s @ [(m, t)]\<rparr>)"
    by (auto simp: well_formed_def)
  have wf_sock: "\<And>s m. well_formed s \<Longrightarrow> socket s = Some m \<Longrightarrow> m < length (sockets s)"
    by (auto simp: well_formed_def)
  have wf_init: "\<And>s c. well_formed s \<Longrightarrow> well_formed (initializeWebSocket c s)"
    by (auto simp: initializeWebSocket_def split_beta Let_def new_WebSocket_def well_formed_def
        nth_append less_Suc_eq clear_ping_def clear_reconnect_def clearTimer_def split: option.splits)
  have wf_send: "\<And>s x. well_formed s \<Longrightarrow> well_formed (fst (sendWebSocketMessage x s))"
    by (auto simp: sendWebSocketMessage_def split_beta Let_def new_WebSocket_def setTimer_def
        well_formed_def nth_append less_Suc_eq split: option.splits if_splits)
  have wf_ping: "\<And>s. well_formed s \<Longrightarrow> well_formed (ping s)"
    by (auto simp: ping_def wf_frame wf_sock split: option.splits if_splits)
  have wf_onclose: "\<And>s c. well_formed s \<Longrightarrow> well_formed (onclose c s)"
    by (simp add: onclose_def Let_def split_beta setTimer_def)
  have wf_onopen: "\<And>s c. well_formed s \<Longrightarrow> well_formed (onopen c s)"
    by (auto simp: onopen_def Let_def split_beta setTimer_def ws_send_def wf_frame wf_sock
        split: option.splits readyState.splits)
  have wf_fire: "\<And>s cb h. well_formed s \<Longrightarrow> well_formed (fire cb h s)"
    by (case_tac cb) (simp_all add: fire_def Let_def wf_init wf_ping wf_settle wf_close)
  show ?thesis
  proof (cases e)
    case (Socket_open j)
    then have con: "readyState_of st j = Some CONNECTING"
      using assms(2) by (auto split: if_splits)
    then have j: "j < length (sockets st)" by (auto simp: readyState_of_def split: if_splits)
    have j': "j < length (sockets (set_readyState j OPEN st))"
      using j by (simp add: set_readyState_def)
    show ?thesis
      using assms Socket_open con wf_frame [OF wf_rs [OF assms(1), of j OPEN] j']
      by (auto simp: Let_def wf_onopen wf_rs wf_settle wf_close split: handlers.splits)
  next
    case (Socket_error j)
    then show ?thesis using assms
      by (auto simp: Let_def wf_settle wf_onclose wf_rs split: if_splits handlers.splits)
  next
    case (Socket_close j)
    then show ?thesis using assms
      by (auto simp: Let_def wf_onclose wf_rs split: if_splits handlers.splits)
  next
    case (Timer_fire h)
    then show ?thesis using assms by (auto simp: wf_fire split: option.splits)
  qed (use assms in \<open>auto simp: wf_init wf_send closeWebSocket_def Let_def wf_close wf_none split: option.splits\<close>)
qed

lemma well_formed_run: "well_formed st \<Longrightarrow> run st es = Some st' \<Longrightarrow> well_formed st'"
proof (induction es arbitrary: st)
  case Nil
  then show ?case by simp
next
  case (Cons e es)
  then show ?case by (auto split: option.splits dest: well_formed_step)
qed

text \<open>
  C4, as amended. However the execution of an inbound command settles, \<^verbatim>\<open>processCommand\<close>
  hands exactly one \<^verbatim>\<open>COMMAND_RESULT\<close> packet to \<^verbatim>\<open>sendWebSocketMessage\<close>. The packet has
  the inbound \<^verbatim>\<open>commandId\<close> and \<^verbatim>\<open>accessCode\<close>; on success \<^verbatim>\<open>success\<close> is true and \<^verbatim>\<open>result\<close> is
  the executor's result; on failure \<^verbatim>\<open>success\<close> is false, \<^verbatim>\<open>result\<close> is \<^verbatim>\<open>null\<close> and \<^verbatim>\<open>error\<close> is
  the message of the \<^verbatim>\<open>Error\<close> thrown (\<^verbatim>\<open>Unknown error\<close> for another thrown value), left out
  when that message is empty. When the persistent socket is open the packet goes out on
  it at once, as one frame. When it is not, the packet waits on a temporary socket:
  whatever happens next, it has gone out as exactly one frame if that socket has opened
  and not at all if it has not; and once the connection has failed or closed, or the
  5 second timer has fired, before the socket opened, the socket never opens and the
  packet is never sent.
\<close>

theorem processCommand_sends_one_result:
  "\<exists>pkt. answer d (out, t) st = sendWebSocketMessage pkt st
       \<and> pkt = VObj [(''type'', VStr ''COMMAND_RESULT''),
                     (''data'',
                      VObj [(''commandId'', VStr (cmd_commandId d)),
                            (''accessCode'', VStr (cmd_accessCode d)),
                            (''success'', VBool (case out of Resolved r \<Rightarrow> True | Rejected e \<Rightarrow> False)),
                            (''result'', (case out of Resolved r \<Rightarrow> r | Rejected e \<Rightarrow> VNull)),
                            (''error'',
                             (case out of
                                Resolved r \<Rightarrow> VUndefined
                              | Rejected (JsError m) \<Rightarrow> if m = [] then VUndefined else VStr m
                              | Rejected (Thrown v) \<Rightarrow> VStr ''Unknown error'')),
                            (''timestamp'', VNum (int t))])]
       \<and> (executeCommand b now (cmd_command d) (cmd_params d) = Some (out, t) \<longrightarrow>
            processCommand b now d st = Some (sendWebSocketMessage pkt st))
       \<and> (if socket_is_open st then
            \<exists>k. socket st = Some k
               \<and> sendWebSocketMessage pkt st = (st\<lparr>sent := sent st @ [(k, message_text pkt)]\<rparr>, Sent)
          else
            (case sendWebSocketMessage pkt st of
               (st', r) \<Rightarrow>
                 r = Deferred (length (sockets st)) \<and> sent st' = sent st
               \<and> sockets st' =
                   sockets st @ [\<lparr>ws_handlers = Temporary pkt Pending, ws_readyState = CONNECTING\<rparr>]
               \<and> map_option sent (step st' (Socket_open (length (sockets st)))) =
                   Some (sent st @ [(length (sockets st), message_text pkt)])))
       \<and> (well_formed st \<and> \<not> socket_is_open st \<longrightarrow>
            (\<forall>es st2. run (fst (sendWebSocketMessage pkt st)) es = Some st2 \<longrightarrow>
               frames_on (length (sockets st)) st2 =
                 (if Socket_open (length (sockets st)) \<in> set es then [message_text pkt] else []))
          \<and> (\<forall>es1 st2 e st3 es2 st4.
               run (fst (sendWebSocketMessage pkt st)) es1 = Some st2
             \<and> Socket_open (length (sockets st)) \<notin> set es1
             \<and> step st2 e = Some st3
             \<and> (e = Socket_error (length (sockets st)) \<or> e = Socket_close (length (sockets st))
                \<or> (\<exists>h delay. e = Timer_fire h
                      \<and> map_of (timers st2) h = Some (delay, SendTimeout (length (sockets st)))))
             \<and> run st3 es2 = Some st4 \<longrightarrow>
               frames_on (length (sockets st)) st4 = []
             \<and> Socket_open (length (sockets st)) \<notin> set es2))"
proof -
  define pkt where "pkt = resultPacket (cmd_commandId d) (cmd_accessCode d)
      (case out of Resolved r \<Rightarrow> True | Rejected e \<Rightarrow> False)
      (case out of Resolved r \<Rightarrow> r | Rejected e \<Rightarrow> VNull)
      (case out of Resolved r \<Rightarrow> None | Rejected (JsError m) \<Rightarrow> Some m
        | Rejected (Thrown v) \<Rightarrow> Some ''Unknown error'') t"
  define k where "k = length (sockets st)"
  have 1: "answer d (out, t) st = sendWebSocketMessage pkt st"
    by (simp add: answer_def sendCommandResult_def pkt_def split: outcome.splits thrown.splits)
  have 2: "pkt = VObj [(''type'', VStr ''COMMAND_RESULT''),
                     (''data'',
                      VObj [(''commandId'', VStr (cmd_commandId d)),
                            (''accessCode'', VStr (cmd_accessCode d)),
                            (''success'', VBool (case out of Resolved r \<Rightarrow> True | Rejected e \<Rightarrow> False)),
                            (''result'', (case out of Resolved r \<Rightarrow> r | Rejected e \<Rightarrow> VNull)),
                            (''error'',
                             (case out of
                                Resolved r \<Rightarrow> VUndefined
                              | Rejected (JsError m) \<Rightarrow> if m = [] then VUndefined else VStr m
                              | Rejected (Thrown v) \<Rightarrow> VStr ''Unknown error'')),
                            (''timestamp'', VNum (int t))])]"
    by (simp add: pkt_def resultPacket_def enum_member_def PacketType_def
        split: outcome.splits thrown.splits)
  have 3: "executeCommand b now (cmd_command d) (cmd_params d) = Some (out, t) \<longrightarrow>
            processCommand b now d st = Some (sendWebSocketMessage pkt st)"
    using 1 by (simp add: processCommand_def)
  have 4: "if socket_is_open st then
            \<exists>k. socket st = Some k
               \<and> sendWebSocketMessage pkt st = (st\<lparr>sent := sent st @ [(k, message_text pkt)]\<rparr>, Sent)
          else
            (case sendWebSocketMessage pkt st of
               (st', r) \<Rightarrow>
                 r = Deferred (length (sockets st)) \<and> sent st' = sent st
               \<and> sockets st' =
                   sockets st @ [\<lparr>ws_handlers = Temporary pkt Pending, ws_readyState = CONNECTING\<rparr>]
               \<and> map_option sent (step st' (Socket_open (length (sockets st)))) =
                   Some (sent st @ [(length (sockets st), message_text pkt)]))"
  proof (cases "socket_is_open st")
    case True
    show ?thesis unfolding if_P [OF True] by (rule sendWebSocketMessage_open [OF True])
  next
    case False
    show ?thesis unfolding if_not_P [OF False] by (rule sendWebSocketMessage_deferred [OF False])
  qed
  have 5: "(\<forall>es st2. run (fst (sendWebSocketMessage pkt st)) es = Some st2 \<longrightarrow>
               frames_on k st2 = (if Socket_open k \<in> set es then [message_text pkt] else []))
          \<and> (\<forall>es1 st2 e st3 es2 st4.
               run (fst (sendWebSocketMessage pkt st)) es1 = Some st2
             \<and> Socket_open k \<notin> set es1
             \<and> step st2 e = Some st3
             \<and> (e = Socket_error k \<or> e = Socket_close k
                \<or> (\<exists>h delay. e = Timer_fire h \<and> map_of (timers st2) h = Some (delay, SendTimeout k)))
             \<and> run st3 es2 = Some st4 \<longrightarrow>
               frames_on k st4 = [] \<and> Socket_open k \<notin> set es2)"
    if wf: "well_formed st" and o: "\<not> socket_is_open st"
  proof -
    have c: "carries k pkt [] True (fst (sendWebSocketMessage pkt st))"
      unfolding k_def by (rule carries_deferred [OF wf o])
    have a: "frames_on k st2 = (if Socket_open k \<in> set es then [message_text pkt] else [])"
      if "run (fst (sendWebSocketMessage pkt st)) es = Some st2" for es st2
      using carries_run [OF c that] by simp
    have b: "frames_on k st4 = [] \<and> Socket_open k \<notin> set es2"
      if r1: "run (fst (sendWebSocketMessage pkt st)) es1 = Some st2"
        and n: "Socket_open k \<notin> set es1"
        and s: "step st2 e = Some st3"
        and e: "e = Socket_error k \<or> e = Socket_close k
                \<or> (\<exists>h delay. e = Timer_fire h \<and> map_of (timers st2) h = Some (delay, SendTimeout k))"
        and r2: "run st3 es2 = Some st4"
      for es1 st2 e st3 es2 st4
    proof -
      have "carries k pkt [] True st2" using carries_run [OF c r1] n by simp
      then have "carries k pkt [] False st3" using s e by (rule carries_failure)
      then have "Socket_open k \<notin> set es2 \<and> carries k pkt [] False st4"
        using r2 by (rule carries_run_closed)
      then show ?thesis by (simp add: carries_def)
    qed
    show ?thesis using a b by blast
  qed
  show ?thesis
    by (rule exI [of _ pkt]) (intro conjI 1 2 [folded pkt_def] 3 4 impI 5 [unfolded k_def]; simp)
qed

theorem processCommand_sends_one_result_witness:
  "executeCommand empty_page 0 ''exit'' [] = Some (Resolved (VObj [(''exited'', VBool True)]), 0)
 \<and> well_formed initial_state \<and> \<not> socket_is_open initial_state
 \<and> (\<exists>pkt. processCommand empty_page 0
              \<lparr>cmd_accessCode = ''123456'', cmd_commandId = ''abc'', cmd_command = ''exit'',
               cmd_params = [], cmd_timestamp = 0\<rparr> initial_state =
            Some (sendWebSocketMessage pkt initial_state)
          \<and> pkt = VObj [(''type'', VStr ''COMMAND_RESULT''),
                        (''data'',
                         VObj [(''commandId'', VStr ''abc''),
                               (''accessCode'', VStr ''123456''),
                               (''success'', VBool True),
                               (''result'', VObj [(''exited'', VBool True)]),
                               (''error'', VUndefined),
                               (''timestamp'', VNum 0)])]
          \<and> snd (sendWebSocketMessage pkt initial_state) = Deferred 0
          \<and> (\<forall>es st2. run (fst (sendWebSocketMessage pkt initial_state)) es = Some st2 \<longrightarrow>
                frames_on 0 st2 = (if Socket_open 0 \<in> set es then [message_text pkt] else [])))"
proof -
  have h: "executeCommand empty_page 0
             (cmd_command \<lparr>cmd_accessCode = ''123456'', cmd_commandId = ''abc'', cmd_command = ''exit'',
               cmd_params = [], cmd_timestamp = 0\<rparr>)
             (cmd_params \<lparr>cmd_accessCode = ''123456'', cmd_commandId = ''abc'', cmd_command = ''exit'',
               cmd_params = [], cmd_timestamp = 0\<rparr>) =
           Some (Resolved (VObj [(''exited'', VBool True)]), 0)"
    by (simp add: executeCommand_def is_command_simps handleExit_def)
  have o: "\<not> socket_is_open initial_state"
    by (simp add: socket_is_open_def initial_state_def)
  have l: "length (sockets initial_state) = 0"
    by (simp add: initial_state_def)
  show ?thesis
    using h o well_formed_initial
      processCommand_sends_one_result [of "\<lparr>cmd_accessCode = ''123456'', cmd_commandId = ''abc'',
        cmd_command = ''exit'', cmd_params = [], cmd_timestamp = 0\<rparr>"
        "Resolved (VObj [(''exited'', VBool True)])" 0 initial_state empty_page 0]
    by (auto simp: l split: prod.splits)
qed

text \<open>
  C4 as stated fails: a command can end with no result packet emitted. With no open
  connection the result of an \<^verbatim>\<open>exit\<close> command waits on a temporary socket; when that
  connection fails nothing was sent, the 5 second timer finds the socket closed, and no
  event is left that could send the packet.
\<close>

theorem result_lost_when_send_fails:
  "\<exists>st. processCommand empty_page 0
           \<lparr>cmd_accessCode = ''123456'', cmd_commandId = ''abc'', cmd_command = ''exit'',
            cmd_params = [], cmd_timestamp = 0\<rparr> initial_state = Some (st, Deferred 0)
      \<and> sent st = []
      \<and> (\<exists>st'. run st [Socket_error 0, Timer_fire 1] = Some st'
             \<and> sent st' = [] \<and> timers st' = [] \<and> map ws_readyState (sockets st') = [CLOSED]
             \<and> (\<forall>k. step st' (Socket_open k) = None) \<and> (\<forall>k. step st' (Socket_error k) = None)
             \<and> (\<forall>k. step st' (Socket_close k) = None) \<and> (\<forall>h. step st' (Timer_fire h) = None))"
  by (simp add: processCommand_def answer_def executeCommand_def is_command_simps handleExit_def
      sendCommandResult_def sendWebSocketMessage_def settle_def ws_defs less_Suc_eq_0_disj)

subsection \<open>C1: the codec round trip\<close>

declare parse_value.simps [simp del] parse_elems.simps [simp del] parse_members.simps [simp del]

lemma cons_char_Inr [simp]: "cons_char c (Inr (s, rest)) = Inr (c # s, rest)"
  by (simp add: cons_char_def)















lemma skip_ws_starts_value: "starts_value t \<Longrightarrow> skip_ws (t @ r) = t @ r"
  by (cases t) (auto simp: starts_value_def skip_ws_def)


lemma not_ws_simps [simp]:
  "\<not> is_ws CHR ''n''" "\<not> is_ws CHR ''t''" "\<not> is_ws CHR ''f''" "\<not> is_ws CHR ''[''" "\<not> is_ws CHR ''{''"
  "\<not> is_ws CHR '']''" "\<not> is_ws CHR ''}''" "\<not> is_ws CHR '',''" "\<not> is_ws CHR '':''" "\<not> is_ws CHR ''-''"
  "\<not> is_ws dquote"
  by (simp_all add: is_ws_def dquote_def)























lemma follows_value_simps [simp]:
  "follows_value (CHR '','' # r)" "follows_value (CHR '']'' # r)" "follows_value (CHR ''}'' # r)"
  "follows_value []"
  by (simp_all add: follows_value_def)





















end
